theory Spec2Isabelle
  imports Main "HOL-Library.AList"
begin

section \<open>Python strings and values\<close>

text \<open>
  Strings are lists of 8-bit characters. \<open>str.lower\<close> and \<open>str.upper\<close> are modelled on
  the ASCII letters; every other character is left as it is (Bluetooth addresses are
  hexadecimal digits and separators).
\<close>

definition lower_char :: "char \<Rightarrow> char" where
  "lower_char c =
     (let n = (of_char c :: nat) in if 65 \<le> n \<and> n \<le> 90 then char_of (n + 32) else c)"

definition upper_char :: "char \<Rightarrow> char" where
  "upper_char c =
     (let n = (of_char c :: nat) in if 97 \<le> n \<and> n \<le> 122 then char_of (n - 32) else c)"

definition lower :: "string \<Rightarrow> string" where
  "lower s = map lower_char s"

definition upper :: "string \<Rightarrow> string" where
  "upper s = map upper_char s"

text \<open>\<open>s.replace(old, new)\<close> for single characters; \<open>s.replace(old, "")\<close>.\<close>

definition replace_char :: "char \<Rightarrow> char \<Rightarrow> string \<Rightarrow> string" where
  "replace_char old new s = map (\<lambda>c. if c = old then new else c) s"

definition remove_char :: "char \<Rightarrow> string \<Rightarrow> string" where
  "remove_char old s = filter (\<lambda>c. c \<noteq> old) s"

text \<open>\<open>s.split(sep)\<close> for a one-character separator: the result is never empty.\<close>

fun split_on :: "char \<Rightarrow> string \<Rightarrow> string list" where
  "split_on sep [] = [[]]"
| "split_on sep (c # cs) =
     (if c = sep then [] # split_on sep cs
      else (case split_on sep cs of
              [] \<Rightarrow> [[c]]
            | w # ws \<Rightarrow> (c # w) # ws))"

text \<open>\<open>s[-n:]\<close>: the last \<open>n\<close> characters, the whole string when it is shorter.\<close>

definition last_chars :: "nat \<Rightarrow> string \<Rightarrow> string" where
  "last_chars n s = drop (length s - n) s"

text \<open>Values of \<open>dict[str, Any]\<close>: form input, entry data and decoded JSON.\<close>

datatype pyval =
    PNone
  | PBool bool
  | PInt int
  | PStr string
  | PDict "(string \<times> pyval) list"

type_synonym pydict = "(string \<times> pyval) list"

text \<open>The exceptions the module raises or lets through.\<close>

datatype exn =
    AbortFlow string
  | RuntimeError string
  | KeyError pyval
  | IndexError
  | TypeError
  | AssertionError
  | JSONDecodeError
  | RequestException

section \<open>Identity and display name\<close>

text \<open>\<open>format_unique_id\<close>: \<open>address.replace(":", "").lower()\<close>.\<close>

definition format_unique_id :: "string \<Rightarrow> string" where
  "format_unique_id address = lower (remove_char (CHR '':'') address)"

text \<open>
  \<open>short_address\<close>: \<open>results[-2]\<close> raises IndexError when the address has no separator.
\<close>

definition short_address :: "string \<Rightarrow> exn + string" where
  "short_address address =
     (let results = split_on (CHR '':'') (replace_char (CHR ''-'') (CHR '':'') address) in
      if length results < 2 then Inl IndexError
      else Inr (last_chars 4
             (upper (results ! (length results - 2)) @ upper (last results))))"

text \<open>
  Two addresses that differ only in letter case or in the placement of \<open>:\<close> separators:
  the relation generated by inserting or deleting one separator and by changing the case
  of one character.
\<close>

inductive differ_in_case_or_colons :: "string \<Rightarrow> string \<Rightarrow> bool" where
  same: "differ_in_case_or_colons a a"
| colon_inserted: "differ_in_case_or_colons (xs @ ys) (xs @ CHR '':'' # ys)"
| colon_deleted: "differ_in_case_or_colons (xs @ CHR '':'' # ys) (xs @ ys)"
| raised: "differ_in_case_or_colons (xs @ c # ys) (xs @ upper_char c # ys)"
| lowered: "differ_in_case_or_colons (xs @ c # ys) (xs @ lower_char c # ys)"
| step: "differ_in_case_or_colons a b \<Longrightarrow> differ_in_case_or_colons b c \<Longrightarrow>
         differ_in_case_or_colons a c"

definition name_sep :: string where
  "name_sep = [CHR '' '']"

section \<open>Constants, advertisements and the host\<close>

text \<open>
  The constants the module imports from \<open>homeassistant.const\<close>, from \<open>.const\<close> and from
  the \<open>switchbot\<close> library are parameters of the model: the form keys, the three model
  tables (model name to sensor type) and \<open>SwitchbotModel.LOCK\<close>.
\<close>

record config =
  CONF_ADDRESS :: string
  CONF_PASSWORD :: string
  CONF_SENSOR_TYPE :: string
  CONF_USERNAME :: string
  CONF_ENCRYPTION_KEY :: string
  CONF_KEY_ID :: string
  CONNECTABLE_SUPPORTED_MODEL_TYPES :: "(string \<times> string) list"
  NON_CONNECTABLE_SUPPORTED_MODEL_TYPES :: "(string \<times> string) list"
  SUPPORTED_MODEL_TYPES :: "(string \<times> string) list"
  LOCK :: string

text \<open>
  What the theorems below assume of these parameters: the supported table has the keys of
  the two transport tables, which share no model, and the form keys are pairwise distinct.
\<close>

definition tables_consistent :: "config \<Rightarrow> bool" where
  "tables_consistent K =
     (set (map fst (SUPPORTED_MODEL_TYPES K)) =
        set (map fst (CONNECTABLE_SUPPORTED_MODEL_TYPES K)) \<union>
        set (map fst (NON_CONNECTABLE_SUPPORTED_MODEL_TYPES K)) \<and>
      set (map fst (CONNECTABLE_SUPPORTED_MODEL_TYPES K)) \<inter>
        set (map fst (NON_CONNECTABLE_SUPPORTED_MODEL_TYPES K)) = {})"

definition keys_distinct :: "config \<Rightarrow> bool" where
  "keys_distinct K =
     distinct [CONF_ADDRESS K, CONF_PASSWORD K, CONF_SENSOR_TYPE K, CONF_USERNAME K,
               CONF_ENCRYPTION_KEY K, CONF_KEY_ID K]"

definition AppClientId :: string where
  "AppClientId = ''66r90hdllaj4nnlne4qna0muls''"

definition AppClientSecret :: string where
  "AppClientSecret = ''1v3v7vfjsiggiupkeuqvsovg084e3msbefpj9rgh611u30uug6t8''"

text \<open>
  \<open>SwitchBotAdvertisement\<close>: of the \<open>data\<close> dictionary the three keys the flow reads,
  \<open>None\<close> for a key that is absent.
\<close>

record advert_data =
  modelName :: "string option"
  modelFriendlyName :: "string option"
  isEncrypted :: "bool option"

record switchbot_adv =
  adv_address :: string
  adv_data :: advert_data
  adv_device :: string

text \<open>\<open>BluetoothServiceInfoBleak\<close>: one discovery event.\<close>

record service_info =
  info_address :: string
  info_device :: string
  info_advertisement :: string
  info_connectable :: bool

text \<open>The outcomes of the two cloud calls of \<open>retrieve_lock_key\<close>.\<close>

datatype auth_outcome =
    NotAuthorizedException
  | AuthRaises exn
  | AuthReturns "(string \<times> pydict) list option"

datatype post_outcome =
    PostRaises exn
  | PostContent "pyval option"

text \<open>
  The collaborators a step reaches through \<open>self.hass\<close> and its imports: the identities
  of the persisted records, the Bluetooth scan, the advertisement parser, the lock's key
  verification and the two cloud calls. \<open>PostContent None\<close> is a body that is not JSON.
\<close>

record hass =
  current_ids :: "string list"
  async_discovered_service_info :: "bool \<Rightarrow> service_info list"
  parse_advertisement_data :: "string \<Rightarrow> string \<Rightarrow> switchbot_adv option"
  verify_encryption_key :: "string \<Rightarrow> pyval option \<Rightarrow> pyval option \<Rightarrow> exn + bool"
  hmac_sha256_b64 :: "string \<Rightarrow> string \<Rightarrow> string"
  initiate_auth :: "string \<Rightarrow> pyval option \<Rightarrow> string \<Rightarrow> auth_outcome"
  requests_post :: "pyval \<Rightarrow> string \<Rightarrow> post_outcome"

section \<open>The flow: state and results\<close>

text \<open>
  The transient state of one run: the two attributes set by \<open>__init__\<close>, and what the
  steps write into the flow's context.
\<close>

record flow =
  discovered_adv :: "switchbot_adv option"
  discovered_advs :: "(string \<times> switchbot_adv) list"
  unique_id :: "string option"
  title_placeholders :: "(string \<times> string) list option"
  confirm_only :: bool

definition init_flow :: flow where
  "init_flow = \<lparr>discovered_adv = None, discovered_advs = [], unique_id = None,
                 title_placeholders = None, confirm_only = False\<rparr>"

datatype field_type = TStr | TIn "(string \<times> string) list"

text \<open>
  A step's result: \<open>async_abort\<close>, \<open>async_show_form\<close> (step id, schema, errors,
  description placeholders) or \<open>async_create_entry\<close> (title, data).
\<close>

datatype flow_result =
    Abort string
  | ShowForm string "(string \<times> field_type) list" "(string \<times> string) list option"
      "(string \<times> string) list option"
  | CreateEntry string pydict

type_synonym step_result = "(exn + flow_result) \<times> flow"

text \<open>\<open>key in table\<close> for the value of \<open>data.get("modelName")\<close>.\<close>

definition in_table :: "string option \<Rightarrow> (string \<times> 'a) list \<Rightarrow> bool" where
  "in_table k tbl = (case k of None \<Rightarrow> False | Some s \<Rightarrow> s \<in> set (map fst tbl))"

text \<open>A dictionary literal with two keys.\<close>

definition dict2 :: "string \<Rightarrow> 'v \<Rightarrow> string \<Rightarrow> 'v \<Rightarrow> (string \<times> 'v) list" where
  "dict2 k1 v1 k2 v2 = AList.update k2 v2 [(k1, v1)]"

text \<open>\<open>value[key]\<close> on a decoded JSON value.\<close>

definition subscript :: "pyval \<Rightarrow> string \<Rightarrow> exn + pyval" where
  "subscript v k =
     (case v of
        PDict d \<Rightarrow> (case map_of d k of None \<Rightarrow> Inl (KeyError (PStr k)) | Some x \<Rightarrow> Inr x)
      | _ \<Rightarrow> Inl TypeError)"

definition name_from_discovery :: "switchbot_adv \<Rightarrow> exn + string" where
  "name_from_discovery discovery =
     (case modelFriendlyName (adv_data discovery) of
        None \<Rightarrow> Inl (KeyError (PStr ''modelFriendlyName''))
      | Some friendly \<Rightarrow>
          (case short_address (adv_address discovery) of
             Inl e \<Rightarrow> Inl e
           | Inr short \<Rightarrow> Inr (friendly @ name_sep @ short)))"

text \<open>
  Modelled from the spec: the host's \<open>async_set_unique_id\<close>, which is not part of this
  module. The run's identity is recorded ("identity is computed from the candidate's
  normalized hardware address the moment it is known"). The spec describes no check
  against other runs in progress, and the model has none.
\<close>

definition async_set_unique_id :: "string \<Rightarrow> flow \<Rightarrow> flow" where
  "async_set_unique_id uid st = st\<lparr>unique_id := Some uid\<rparr>"

text \<open>
  Modelled from the spec: the host's \<open>_async_current_ids\<close>, the identities of the
  persisted records (the store's \<open>exists(identity)\<close>).
\<close>

definition async_current_ids :: "hass \<Rightarrow> string list" where
  "async_current_ids env = current_ids env"

text \<open>
  Modelled from the spec: the host's \<open>_abort_if_unique_id_configured\<close> ("if a record
  with that identity already exists, the run aborts immediately with reason
  \<open>already_configured\<close>").
\<close>

definition abort_if_unique_id_configured :: "hass \<Rightarrow> flow \<Rightarrow> exn + unit" where
  "abort_if_unique_id_configured env st =
     (case unique_id st of
        None \<Rightarrow> Inr ()
      | Some uid \<Rightarrow>
          if uid \<in> set (async_current_ids env) then Inl (AbortFlow ''already_configured'')
          else Inr ())"

section \<open>The steps of the config flow\<close>

definition async_create_entry_from_discovery :: "config \<Rightarrow> flow \<Rightarrow> pydict \<Rightarrow> step_result" where
  "async_create_entry_from_discovery K st user_input =
     (case discovered_adv st of
        None \<Rightarrow> (Inl AssertionError, st)
      | Some discovery \<Rightarrow>
          (case name_from_discovery discovery of
             Inl e \<Rightarrow> (Inl e, st)
           | Inr name \<Rightarrow>
               (case modelName (adv_data discovery) of
                  None \<Rightarrow> (Inl (KeyError (PStr ''modelName'')), st)
                | Some model_name \<Rightarrow>
                    (case map_of (SUPPORTED_MODEL_TYPES K) model_name of
                       None \<Rightarrow> (Inl (KeyError (PStr model_name)), st)
                     | Some sensor_type \<Rightarrow>
                         (Inr (CreateEntry name
                            (AList.update (CONF_SENSOR_TYPE K) (PStr sensor_type)
                               (AList.update (CONF_ADDRESS K) (PStr (adv_address discovery))
                                  user_input))), st)))))"

text \<open>
  \<open>async_show_form\<close> with the device's name as the description placeholder, as the
  steps after the selection call it.
\<close>

definition show_form_for :: "string \<Rightarrow> (string \<times> field_type) list \<Rightarrow>
    (string \<times> string) list option \<Rightarrow> switchbot_adv \<Rightarrow> flow \<Rightarrow> step_result" where
  "show_form_for step_id data_schema errors discovery st =
     (case name_from_discovery discovery of
        Inl e \<Rightarrow> (Inl e, st)
      | Inr name \<Rightarrow> (Inr (ShowForm step_id data_schema errors (Some [(''name'', name)])), st))"

definition async_step_confirm :: "config \<Rightarrow> flow \<Rightarrow> pydict option \<Rightarrow> step_result" where
  "async_step_confirm K st user_input =
     (case discovered_adv st of
        None \<Rightarrow> (Inl AssertionError, st)
      | Some discovery \<Rightarrow>
          (case user_input of
             Some ui \<Rightarrow> async_create_entry_from_discovery K st ui
           | None \<Rightarrow> show_form_for ''confirm'' [] None discovery (st\<lparr>confirm_only := True\<rparr>)))"

definition async_step_password :: "config \<Rightarrow> flow \<Rightarrow> pydict option \<Rightarrow> step_result" where
  "async_step_password K st user_input =
     (case discovered_adv st of
        None \<Rightarrow> (Inl AssertionError, st)
      | Some discovery \<Rightarrow>
          (case user_input of
             Some ui \<Rightarrow> async_create_entry_from_discovery K st ui
           | None \<Rightarrow> show_form_for ''password'' [(CONF_PASSWORD K, TStr)] None discovery st))"

text \<open>
  \<open>retrieve_lock_key\<close>. \<open>username + AppClientId\<close> raises TypeError unless the username
  is a string. Every exception of \<open>initiate_auth\<close> becomes a RuntimeError; what
  \<open>requests.post\<close>, \<open>json.loads\<close> and the subscripts raise is not caught. The status code
  that the last RuntimeError formats into its message is left out of the message.
\<close>

definition retrieve_lock_key :: "config \<Rightarrow> hass \<Rightarrow> string \<Rightarrow> pyval option \<Rightarrow> pyval option \<Rightarrow>
    exn + pydict" where
  "retrieve_lock_key K env device_mac username password =
     (case username of
        Some (PStr user) \<Rightarrow>
          (let msg = user @ AppClientId;
               secret_hash = hmac_sha256_b64 env AppClientSecret msg in
           case initiate_auth env user password secret_hash of
             NotAuthorizedException \<Rightarrow> Inl (RuntimeError ''Failed to authenticate'')
           | AuthRaises err \<Rightarrow> Inl (RuntimeError ''Unexpected error during authentication'')
           | AuthReturns auth_response \<Rightarrow>
               (case auth_response of
                  None \<Rightarrow> Inl (RuntimeError ''Unexpected authentication response'')
                | Some response \<Rightarrow>
                    (case map_of response ''AuthenticationResult'' of
                       None \<Rightarrow> Inl (RuntimeError ''Unexpected authentication response'')
                     | Some authentication_result \<Rightarrow>
                         (case map_of authentication_result ''AccessToken'' of
                            None \<Rightarrow> Inl (RuntimeError ''Unexpected authentication response'')
                          | Some access_token \<Rightarrow>
                              (case requests_post env access_token
                                      (upper (remove_char (CHR ''-'')
                                         (remove_char (CHR '':'') device_mac))) of
                                 PostRaises e \<Rightarrow> Inl e
                               | PostContent None \<Rightarrow> Inl JSONDecodeError
                               | PostContent (Some key_response_content) \<Rightarrow>
                                   (case subscript key_response_content ''statusCode'' of
                                      Inl e \<Rightarrow> Inl e
                                    | Inr status_code \<Rightarrow>
                                        if status_code \<noteq> PInt 100 then
                                          Inl (RuntimeError
                                            ''Unexpected status code returned byt SwitchBot API'')
                                        else
                                          (case subscript key_response_content ''body'' of
                                             Inl e \<Rightarrow> Inl e
                                           | Inr body \<Rightarrow>
                                               (case subscript body ''communicationKey'' of
                                                  Inl e \<Rightarrow> Inl e
                                                | Inr communication_key \<Rightarrow>
                                                    (case subscript communication_key ''keyId'' of
                                                       Inl e \<Rightarrow> Inl e
                                                     | Inr key_id \<Rightarrow>
                                                         (case subscript communication_key ''key'' of
                                                            Inl e \<Rightarrow> Inl e
                                                          | Inr key \<Rightarrow>
                                                              Inr (dict2 (CONF_KEY_ID K) key_id
                                                                     (CONF_ENCRYPTION_KEY K) key)))))))))))
      | _ \<Rightarrow> Inl TypeError)"

definition async_step_lock_key :: "config \<Rightarrow> hass \<Rightarrow> flow \<Rightarrow> pydict option \<Rightarrow> step_result" where
  "async_step_lock_key K env st user_input =
     (case discovered_adv st of
        None \<Rightarrow> (Inl AssertionError, st)
      | Some discovery \<Rightarrow>
          (let schema = [(CONF_KEY_ID K, TStr), (CONF_ENCRYPTION_KEY K, TStr)] in
           case user_input of
             None \<Rightarrow> show_form_for ''lock_key'' schema (Some []) discovery st
           | Some ui \<Rightarrow>
               (case verify_encryption_key env (adv_device discovery)
                       (map_of ui (CONF_KEY_ID K)) (map_of ui (CONF_ENCRYPTION_KEY K)) of
                  Inl e \<Rightarrow> (Inl e, st)
                | Inr verified \<Rightarrow>
                    if \<not> verified then
                      show_form_for ''lock_key'' schema
                        (Some (dict2 (CONF_KEY_ID K) ''key_id_invalid''
                                 (CONF_ENCRYPTION_KEY K) ''encryption_key_invalid''))
                        discovery st
                    else async_create_entry_from_discovery K st ui)))"

text \<open>
  \<open>async_step_lock_auth\<close>: the call of \<open>async_step_lock_key\<close> stands inside the
  \<open>try\<close>, so a RuntimeError from there is caught as well.
\<close>

definition async_step_lock_auth :: "config \<Rightarrow> hass \<Rightarrow> flow \<Rightarrow> pydict option \<Rightarrow> step_result" where
  "async_step_lock_auth K env st user_input =
     (case discovered_adv st of
        None \<Rightarrow> (Inl AssertionError, st)
      | Some discovery \<Rightarrow>
          (let schema = [(CONF_USERNAME K, TStr), (CONF_PASSWORD K, TStr)] in
           case user_input of
             None \<Rightarrow> show_form_for ''lock_auth'' schema (Some []) discovery st
           | Some ui \<Rightarrow>
               (let attempt =
                      (case retrieve_lock_key K env (adv_address discovery)
                              (map_of ui (CONF_USERNAME K)) (map_of ui (CONF_PASSWORD K)) of
                         Inl e \<Rightarrow> (Inl e, st)
                       | Inr key_details \<Rightarrow> async_step_lock_key K env st (Some key_details)) in
                case attempt of
                  (Inl (RuntimeError m), st') \<Rightarrow>
                    show_form_for ''lock_auth'' schema
                      (Some [(CONF_USERNAME K, ''auth_failed'')]) discovery st'
                | _ \<Rightarrow> attempt)))"

definition async_step_lock_chose_method :: "config \<Rightarrow> hass \<Rightarrow> flow \<Rightarrow> pydict option \<Rightarrow>
    step_result" where
  "async_step_lock_chose_method K env st user_input =
     (case discovered_adv st of
        None \<Rightarrow> (Inl AssertionError, st)
      | Some discovery \<Rightarrow>
          (let form = show_form_for ''lock_chose_method''
                 [(''method'', TIn [(''login_password'', ''SwitchBot App login and password''),
                                    (''encryption_key'', ''Lock encryption key'')])]
                 None discovery st in
           case user_input of
             None \<Rightarrow> form
           | Some ui \<Rightarrow>
               (let method = map_of ui ''method'' in
                if method = Some (PStr ''login_password'') then async_step_lock_auth K env st None
                else if method = Some (PStr ''encryption_key'') then
                  async_step_lock_key K env st None
                else form)))"

text \<open>
  The condition under which \<open>_async_discover_devices\<close> stores a parsed advertisement,
  and the body of its inner loop.
\<close>

definition transport_compatible :: "config \<Rightarrow> bool \<Rightarrow> string option \<Rightarrow> bool" where
  "transport_compatible K connectable model_name =
     ((connectable \<and> in_table model_name (CONNECTABLE_SUPPORTED_MODEL_TYPES K)) \<or>
      in_table model_name (NON_CONNECTABLE_SUPPORTED_MODEL_TYPES K))"

definition discover_one :: "config \<Rightarrow> hass \<Rightarrow> string list \<Rightarrow> service_info \<Rightarrow>
    (string \<times> switchbot_adv) list \<Rightarrow> (string \<times> switchbot_adv) list" where
  "discover_one K env current_addresses discovery_info advs =
     (let address = info_address discovery_info in
      if format_unique_id address \<in> set current_addresses \<or> address \<in> set (map fst advs)
      then advs
      else
        (case parse_advertisement_data env (info_device discovery_info)
                (info_advertisement discovery_info) of
           None \<Rightarrow> advs
         | Some parsed \<Rightarrow>
             if transport_compatible K (info_connectable discovery_info)
                  (modelName (adv_data parsed))
             then advs @ [(address, parsed)]
             else advs))"

text \<open>
  An event that the scan can store: its identity has no record, it parses, and its model
  suits the transport it was seen on.
\<close>

definition eligible :: "config \<Rightarrow> hass \<Rightarrow> service_info \<Rightarrow> bool" where
  "eligible K env discovery_info =
     (format_unique_id (info_address discovery_info) \<notin> set (async_current_ids env) \<and>
      (case parse_advertisement_data env (info_device discovery_info)
              (info_advertisement discovery_info) of
         None \<Rightarrow> False
       | Some parsed \<Rightarrow>
           transport_compatible K (info_connectable discovery_info)
             (modelName (adv_data parsed))))"

definition async_discover_devices :: "config \<Rightarrow> hass \<Rightarrow> flow \<Rightarrow> (exn + unit) \<times> flow" where
  "async_discover_devices K env st =
     (let current_addresses = async_current_ids env;
          advs1 = fold (discover_one K env current_addresses)
                    (async_discovered_service_info env True) (discovered_advs st);
          advs2 = fold (discover_one K env current_addresses)
                    (async_discovered_service_info env False) advs1;
          st' = st\<lparr>discovered_advs := advs2\<rparr> in
      if advs2 = [] then (Inl (AbortFlow ''no_unconfigured_devices''), st')
      else (Inr (), st'))"

definition async_set_device :: "hass \<Rightarrow> flow \<Rightarrow> switchbot_adv \<Rightarrow> (exn + unit) \<times> flow" where
  "async_set_device env st discovery =
     (let st' = async_set_unique_id (format_unique_id (adv_address discovery))
                  (st\<lparr>discovered_adv := Some discovery\<rparr>) in
      (abort_if_unique_id_configured env st', st'))"

text \<open>
  The choices of the selection form: the dictionary comprehension raises what
  \<open>name_from_discovery\<close> raises for the first entry that has no name.
\<close>

fun names_from_discoveries :: "(string \<times> switchbot_adv) list \<Rightarrow> exn + (string \<times> string) list" where
  "names_from_discoveries [] = Inr []"
| "names_from_discoveries ((address, parsed) # rest) =
     (case name_from_discovery parsed of
        Inl e \<Rightarrow> Inl e
      | Inr name \<Rightarrow>
          (case names_from_discoveries rest of
             Inl e \<Rightarrow> Inl e
           | Inr names \<Rightarrow> Inr ((address, name) # names)))"

text \<open>
  \<open>async_step_user\<close>. A subscript of \<open>_discovered_advs\<close> with a key that is not there
  raises KeyError, with an unhashable key TypeError.
\<close>

definition async_step_user :: "config \<Rightarrow> hass \<Rightarrow> flow \<Rightarrow> pydict option \<Rightarrow> step_result" where
  "async_step_user K env st user_input =
     (case user_input of
        Some ui \<Rightarrow>
          (case map_of ui (CONF_ADDRESS K) of
             None \<Rightarrow> (Inl (KeyError (PStr (CONF_ADDRESS K))), st)
           | Some chosen \<Rightarrow>
               (case chosen of
                  PDict d \<Rightarrow> (Inl TypeError, st)
                | PStr address \<Rightarrow>
                    (case map_of (discovered_advs st) address of
                       None \<Rightarrow> (Inl (KeyError chosen), st)
                     | Some device_adv \<Rightarrow>
                         (case async_set_device env st device_adv of
                            (Inl e, st') \<Rightarrow> (Inl e, st')
                          | (Inr u, st') \<Rightarrow>
                              if modelName (adv_data device_adv) = Some (LOCK K) then
                                async_step_lock_chose_method K env st' None
                              else
                                (case isEncrypted (adv_data device_adv) of
                                   None \<Rightarrow> (Inl (KeyError (PStr ''isEncrypted'')), st')
                                 | Some True \<Rightarrow> async_step_password K st' None
                                 | Some False \<Rightarrow> async_create_entry_from_discovery K st' ui)))
                | _ \<Rightarrow> (Inl (KeyError chosen), st)))
      | None \<Rightarrow>
          (case async_discover_devices K env st of
             (Inl e, st1) \<Rightarrow> (Inl e, st1)
           | (Inr u, st1) \<Rightarrow>
               (case discovered_advs st1 of
                  [(address, device_adv)] \<Rightarrow>
                    (case async_set_device env st1 device_adv of
                       (Inl e, st') \<Rightarrow> (Inl e, st')
                     | (Inr u, st') \<Rightarrow>
                         if modelName (adv_data device_adv) = Some (LOCK K) then
                           async_step_lock_chose_method K env st' None
                         else
                           (case isEncrypted (adv_data device_adv) of
                              None \<Rightarrow> (Inl (KeyError (PStr ''isEncrypted'')), st')
                            | Some True \<Rightarrow> async_step_password K st' None
                            | Some False \<Rightarrow> async_step_confirm K st' None))
                | _ \<Rightarrow>
                    (case names_from_discoveries (discovered_advs st1) of
                       Inl e \<Rightarrow> (Inl e, st1)
                     | Inr names \<Rightarrow>
                         (Inr (ShowForm ''user'' [(CONF_ADDRESS K, TIn names)] (Some []) None),
                          st1)))))"

definition async_step_bluetooth :: "config \<Rightarrow> hass \<Rightarrow> flow \<Rightarrow> service_info \<Rightarrow> step_result" where
  "async_step_bluetooth K env st discovery_info =
     (let st1 = async_set_unique_id (format_unique_id (info_address discovery_info)) st in
      case abort_if_unique_id_configured env st1 of
        Inl e \<Rightarrow> (Inl e, st1)
      | Inr u \<Rightarrow>
          (case parse_advertisement_data env (info_device discovery_info)
                  (info_advertisement discovery_info) of
             None \<Rightarrow> (Inr (Abort ''not_supported''), st1)
           | Some parsed \<Rightarrow>
               if \<not> in_table (modelName (adv_data parsed)) (SUPPORTED_MODEL_TYPES K) then
                 (Inr (Abort ''not_supported''), st1)
               else
                 (let model_name = modelName (adv_data parsed) in
                  if \<not> info_connectable discovery_info \<and>
                     in_table model_name (CONNECTABLE_SUPPORTED_MODEL_TYPES K)
                  then (Inr (Abort ''not_supported''), st1)
                  else
                    (let st2 = st1\<lparr>discovered_adv := Some parsed\<rparr> in
                     case modelFriendlyName (adv_data parsed) of
                       None \<Rightarrow> (Inl (KeyError (PStr ''modelFriendlyName'')), st2)
                     | Some friendly \<Rightarrow>
                         (case short_address (info_address discovery_info) of
                            Inl e \<Rightarrow> (Inl e, st2)
                          | Inr short \<Rightarrow>
                              (let st3 = st2\<lparr>title_placeholders :=
                                     Some [(''name'', friendly), (''address'', short)]\<rparr> in
                               case isEncrypted (adv_data parsed) of
                                 None \<Rightarrow> (Inl (KeyError (PStr ''isEncrypted'')), st3)
                               | Some True \<Rightarrow> async_step_password K st3 None
                               | Some False \<Rightarrow> async_step_confirm K st3 None))))))"

section \<open>The options flow that adds a sensor\<close>

datatype search_outcome =
    SearchRaises
  | SearchReturns "(int \<times> string) list"

record options_bag =
  sensor_indices :: "int list"
  last_update_sensor_add :: bool

datatype options_result =
    OptionsForm string "(string \<times> string) list"
  | OptionsCreateEntry options_bag
  | OptionsAbort string

text \<open>
  Modelled from the spec: the "add item" sub-flow of the options wizard, whose module is
  not part of the sources at hand; only its tests are, and they give the step names and
  the error tags. The scoped search is a parameter. A search that finds nothing renders
  the same state again with an error; a search that finds sensors renders the choice.
\<close>

definition async_step_add_sensor :: "('c \<Rightarrow> search_outcome) \<Rightarrow> 'c option \<Rightarrow> options_result" where
  "async_step_add_sensor async_get_nearby_sensors user_input =
     (case user_input of
        None \<Rightarrow> OptionsForm ''add_sensor'' []
      | Some coordinates \<Rightarrow>
          (case async_get_nearby_sensors coordinates of
             SearchRaises \<Rightarrow> OptionsForm ''add_sensor'' [(''base'', ''unknown'')]
           | SearchReturns [] \<Rightarrow>
               OptionsForm ''add_sensor'' [(''base'', ''no_sensors_near_coordinates'')]
           | SearchReturns nearby \<Rightarrow> OptionsForm ''choose_sensor'' []))"

text \<open>
  Modelled from the spec: the choice of the sensor "appends one new identity to the
  options bag, rejecting duplicates within that bag"; on success the whole bag is written.
\<close>

definition async_step_choose_sensor :: "options_bag \<Rightarrow> int \<Rightarrow> options_result" where
  "async_step_choose_sensor options sensor_index =
     (if sensor_index \<in> set (sensor_indices options) then OptionsAbort ''already_configured''
      else OptionsCreateEntry
             (options\<lparr>sensor_indices := sensor_indices options @ [sensor_index],
                       last_update_sensor_add := True\<rparr>))"

section \<open>Concrete values\<close>

text \<open>
  The constants as the integration defines them for three models, and a few
  advertisements, discovery events and hosts on which the theorems are evaluated.
\<close>

definition example_config :: config where
  "example_config =
     \<lparr>CONF_ADDRESS = ''address'', CONF_PASSWORD = ''password'',
      CONF_SENSOR_TYPE = ''sensor_type'', CONF_USERNAME = ''username'',
      CONF_ENCRYPTION_KEY = ''encryption_key'', CONF_KEY_ID = ''key_id'',
      CONNECTABLE_SUPPORTED_MODEL_TYPES = [(''WoHand'', ''bot''), (''WoLock'', ''lock'')],
      NON_CONNECTABLE_SUPPORTED_MODEL_TYPES = [(''WoSensorTH'', ''hygrometer'')],
      SUPPORTED_MODEL_TYPES =
        [(''WoHand'', ''bot''), (''WoLock'', ''lock''), (''WoSensorTH'', ''hygrometer'')],
      LOCK = ''WoLock''\<rparr>"

definition example_adv :: "string \<Rightarrow> string \<Rightarrow> string \<Rightarrow> bool \<Rightarrow> switchbot_adv" where
  "example_adv address model friendly encrypted =
     \<lparr>adv_address = address,
      adv_data = \<lparr>modelName = Some model, modelFriendlyName = Some friendly,
                  isEncrypted = Some encrypted\<rparr>,
      adv_device = address\<rparr>"

definition bot_adv :: switchbot_adv where
  "bot_adv = example_adv ''AA:BB:CC:DD:EE:FF'' ''WoHand'' ''Bot'' False"

definition encrypted_bot_adv :: switchbot_adv where
  "encrypted_bot_adv = example_adv ''AA:BB:CC:DD:EE:01'' ''WoHand'' ''Bot'' True"

definition second_encrypted_bot_adv :: switchbot_adv where
  "second_encrypted_bot_adv = example_adv ''AA:BB:CC:DD:EE:02'' ''WoHand'' ''Bot'' True"

definition lock_adv :: switchbot_adv where
  "lock_adv = example_adv ''AA:BB:CC:DD:EE:03'' ''WoLock'' ''Lock'' False"

text \<open>The example parser reads the raw advertisement as the model name.\<close>

definition example_parse :: "string \<Rightarrow> string \<Rightarrow> switchbot_adv option" where
  "example_parse device raw =
     (if raw = ''Bot'' then Some (example_adv device ''WoHand'' ''Bot'' False)
      else if raw = ''EncryptedBot'' then Some (example_adv device ''WoHand'' ''Bot'' True)
      else if raw = ''Lock'' then Some (example_adv device ''WoLock'' ''Lock'' False)
      else if raw = ''Meter'' then Some (example_adv device ''WoSensorTH'' ''Meter'' False)
      else None)"

definition example_info :: "string \<Rightarrow> string \<Rightarrow> bool \<Rightarrow> service_info" where
  "example_info address raw connectable =
     \<lparr>info_address = address, info_device = address, info_advertisement = raw,
      info_connectable = connectable\<rparr>"

text \<open>
  A host with no record and no device in range, whose lock accepts no key and whose
  cloud rejects every login.
\<close>

definition quiet_hass :: hass where
  "quiet_hass =
     \<lparr>current_ids = [],
      async_discovered_service_info = (\<lambda>connectable. []),
      parse_advertisement_data = example_parse,
      verify_encryption_key = (\<lambda>device key_id key. Inr False),
      hmac_sha256_b64 = (\<lambda>key msg. msg),
      initiate_auth = (\<lambda>username password secret_hash. NotAuthorizedException),
      requests_post = (\<lambda>token mac. PostRaises RequestException)\<rparr>"

definition configured_hass :: hass where
  "configured_hass = quiet_hass\<lparr>current_ids := [''aabbccddeeff'']\<rparr>"

definition bot_info :: "bool \<Rightarrow> service_info" where
  "bot_info connectable = example_info ''AA:BB:CC:DD:EE:FF'' ''Bot'' connectable"

definition bot_flow :: flow where
  "bot_flow = init_flow\<lparr>discovered_advs := [(''AA:BB:CC:DD:EE:FF'', bot_adv)]\<rparr>"

definition lock_info :: "bool \<Rightarrow> service_info" where
  "lock_info connectable = example_info ''AA:BB:CC:DD:EE:03'' ''Lock'' connectable"

definition lock_scan_hass :: hass where
  "lock_scan_hass =
     quiet_hass\<lparr>async_discovered_service_info :=
       (\<lambda>connectable. if connectable then [] else [lock_info False])\<rparr>"

definition lock_configured_hass :: hass where
  "lock_configured_hass = quiet_hass\<lparr>current_ids := [''aabbccddee03'']\<rparr>"

text \<open>A run that has selected the lock, a login, and hosts whose cloud answers.\<close>

definition lock_flow :: flow where
  "lock_flow = init_flow\<lparr>discovered_adv := Some lock_adv\<rparr>"

definition login :: pydict where
  "login = [(''username'', PStr ''user''), (''password'', PStr ''secret'')]"

definition outage_hass :: hass where
  "outage_hass =
     quiet_hass\<lparr>initiate_auth := (\<lambda>username password secret_hash. AuthRaises RequestException)\<rparr>"

definition key_response :: pyval where
  "key_response =
     PDict [(''statusCode'', PInt 100),
            (''body'', PDict [(''communicationKey'',
               PDict [(''keyId'', PStr ''ff''), (''key'', PStr ''00112233'')])])]"

definition cloud_hass :: hass where
  "cloud_hass =
     quiet_hass\<lparr>initiate_auth := (\<lambda>username password secret_hash.
         AuthReturns (Some [(''AuthenticationResult'', [(''AccessToken'', PStr ''token'')])])),
       requests_post := (\<lambda>token mac. PostContent (Some key_response))\<rparr>"

definition timeout_hass :: hass where
  "timeout_hass = cloud_hass\<lparr>requests_post := (\<lambda>token mac. PostRaises RequestException)\<rparr>"

definition accepting_hass :: hass where
  "accepting_hass = cloud_hass\<lparr>verify_encryption_key := (\<lambda>device key_id key. Inr True)\<rparr>"

text \<open>
  Consecutive submissions to one step: the host calls the handler of the form it has
  rendered with each input, here each time against the host state of that moment.
\<close>

fun resubmit :: "(hass \<Rightarrow> flow \<Rightarrow> pydict option \<Rightarrow> step_result) \<Rightarrow> flow \<Rightarrow>
    (hass \<times> pydict) list \<Rightarrow> (exn + flow_result) list \<times> flow" where
  "resubmit step st [] = ([], st)"
| "resubmit step st ((env, ui) # rest) =
     (case step env st (Some ui) of
        (result, st') \<Rightarrow>
          (case resubmit step st' rest of
             (results, st'') \<Rightarrow> (result # results, st'')))"

definition key_input :: pydict where
  "key_input = [(''key_id'', PStr ''ff''), (''encryption_key'', PStr ''00112233'')]"

text \<open>Hosts that see one lock, and two encrypted bots.\<close>

definition one_lock_hass :: hass where
  "one_lock_hass =
     quiet_hass\<lparr>async_discovered_service_info := (\<lambda>connectable. [lock_info True])\<rparr>"

definition two_bots_hass :: hass where
  "two_bots_hass =
     quiet_hass\<lparr>async_discovered_service_info :=
       (\<lambda>connectable. [example_info ''AA:BB:CC:DD:EE:01'' ''EncryptedBot'' True,
                         example_info ''AA:BB:CC:DD:EE:02'' ''EncryptedBot'' True])\<rparr>"

definition two_bots_flow :: flow where
  "two_bots_flow =
     init_flow\<lparr>discovered_advs := [(''AA:BB:CC:DD:EE:01'', encrypted_bot_adv),
                                   (''AA:BB:CC:DD:EE:02'', second_encrypted_bot_adv)]\<rparr>"

section \<open>Properties of the identity\<close>

lemma of_char_less_256: "(of_char c :: nat) < 256"
  using of_char_mod_256 [of c, where ?'a = nat]
  by (metis mod_less_divisor zero_less_numeral)

lemma lower_char_idem: "lower_char (lower_char c) = lower_char c"
proof -
  have small: "(of_char c :: nat) < 256" by (rule of_char_less_256)
  show ?thesis
    using small by (auto simp: lower_char_def Let_def)
qed

lemma lower_upper_char: "lower_char (upper_char c) = lower_char c"
proof -
  have small: "(of_char c :: nat) < 256" by (rule of_char_less_256)
  show ?thesis
  proof (cases "97 \<le> (of_char c :: nat) \<and> (of_char c :: nat) \<le> 122")
    case True
    define n where "n = (of_char c :: nat)"
    have rng: "97 \<le> n" "n \<le> 122"
      unfolding n_def using True by blast+
    have plus: "n - 32 + 32 = n" and m: "(n - 32) mod 256 = n - 32"
      and r: "65 \<le> n - 32" "n - 32 \<le> 90" and nr: "\<not> n \<le> 90"
      using rng by simp_all
    have "upper_char c = char_of (n - 32)"
      unfolding upper_char_def Let_def n_def [symmetric] using rng by simp
    then have "lower_char (upper_char c) = char_of (n - 32 + 32)"
      using r by (simp add: lower_char_def Let_def m)
    then have "lower_char (upper_char c) = char_of n"
      by (simp only: plus)
    then have "lower_char (upper_char c) = c"
      by (simp add: n_def)
    moreover have "lower_char c = c"
      unfolding lower_char_def Let_def n_def [symmetric] using nr by simp
    ultimately show ?thesis by simp
  next
    case False
    then have "upper_char c = c"
      unfolding upper_char_def Let_def by (rule if_not_P)
    then show ?thesis by simp
  qed
qed

lemma lower_char_not_colon: "lower_char c = CHR '':'' \<longleftrightarrow> c = CHR '':''"
proof -
  have small: "(of_char c :: nat) < 256" by (rule of_char_less_256)
  have "65 \<le> (of_char c :: nat) \<Longrightarrow> (of_char c :: nat) \<le> 90 \<Longrightarrow>
        char_of ((of_char c :: nat) + 32) \<noteq> CHR '':''"
  proof
    assume a: "65 \<le> (of_char c :: nat)" "(of_char c :: nat) \<le> 90"
      and e: "char_of ((of_char c :: nat) + 32) = CHR '':''"
    from e have "(of_char (char_of ((of_char c :: nat) + 32)) :: nat) = of_char (CHR '':'')"
      by simp
    with a show False by simp
  qed
  moreover have "65 \<le> (of_char c :: nat) \<Longrightarrow> c \<noteq> CHR '':''"
    by auto
  ultimately show ?thesis
    by (auto simp: lower_char_def Let_def)
qed

lemma upper_char_colon: "upper_char c = CHR '':'' \<longleftrightarrow> c = CHR '':''"
  by (metis lower_char_not_colon lower_upper_char)

lemma format_unique_id_idem: "format_unique_id (format_unique_id a) = format_unique_id a"
  by (induction a)
     (simp_all add: format_unique_id_def lower_def remove_char_def
        lower_char_idem lower_char_not_colon)

lemma format_unique_id_append:
  "format_unique_id (xs @ ys) = format_unique_id xs @ format_unique_id ys"
  by (simp add: format_unique_id_def lower_def remove_char_def)

lemma format_unique_id_Cons:
  "format_unique_id (c # cs) =
     (if c = CHR '':'' then format_unique_id cs else lower_char c # format_unique_id cs)"
  by (simp add: format_unique_id_def lower_def remove_char_def)

lemma format_unique_id_variant:
  "differ_in_case_or_colons a b \<Longrightarrow> format_unique_id a = format_unique_id b"
proof (induction rule: differ_in_case_or_colons.induct)
  case (raised xs c ys)
  show ?case
    by (simp add: format_unique_id_append format_unique_id_Cons
          upper_char_colon lower_upper_char)
next
  case (lowered xs c ys)
  show ?case
    by (simp add: format_unique_id_append format_unique_id_Cons
          lower_char_not_colon lower_char_idem)
qed (simp_all add: format_unique_id_append format_unique_id_Cons)

lemma lower_char_A: "lower_char (CHR ''A'') = CHR ''a''"
  by code_simp

section \<open>C10: the identity is canonical\<close>

text \<open>
  C10. \<open>format_unique_id\<close> is idempotent, and two addresses that differ only in letter
  case or in the placement of \<open>:\<close> separators have the same identity, so that the
  duplicate check of \<open>_async_set_device\<close> answers the same for two advertisements with
  such addresses.
\<close>

theorem format_unique_id_canonical:
  "format_unique_id (format_unique_id a) = format_unique_id a \<and>
   (differ_in_case_or_colons a b \<longrightarrow>
      format_unique_id a = format_unique_id b \<and>
      (\<forall>env st (da::switchbot_adv) (db::switchbot_adv).
         adv_address da = a \<and> adv_address db = b \<longrightarrow>
         fst (async_set_device env st da) = fst (async_set_device env st db)))"
proof (intro conjI impI allI)
  show "format_unique_id (format_unique_id a) = format_unique_id a"
    by (rule format_unique_id_idem)
next
  assume v: "differ_in_case_or_colons a b"
  then show "format_unique_id a = format_unique_id b"
    by (rule format_unique_id_variant)
next
  fix env st and da db :: switchbot_adv
  assume v: "differ_in_case_or_colons a b"
    and ab: "adv_address da = a \<and> adv_address db = b"
  from v have "format_unique_id a = format_unique_id b"
    by (rule format_unique_id_variant)
  with ab show "fst (async_set_device env st da) = fst (async_set_device env st db)"
    by (simp add: async_set_device_def Let_def abort_if_unique_id_configured_def
          async_set_unique_id_def)
qed

theorem format_unique_id_canonical_witness:
  "differ_in_case_or_colons ''A:b'' ''ab'' \<and>
   format_unique_id ''A:b'' = ''ab'' \<and> format_unique_id ''ab'' = ''ab''"
proof -
  have d1: "differ_in_case_or_colons ''A:b'' ''Ab''"
    using colon_deleted [of "''A''" "''b''"] by simp
  have d2: "differ_in_case_or_colons ''Ab'' ''ab''"
    using lowered [of "[]" "CHR ''A''" "''b''"] by (simp add: lower_char_A)
  have d: "differ_in_case_or_colons ''A:b'' ''ab''"
    using d1 d2 by (rule step)
  have e: "format_unique_id ''ab'' = ''ab''"
    by code_simp
  from format_unique_id_canonical [of "''A:b''" "''ab''"] d e
  show ?thesis by simp
qed

lemma fid_FF: "format_unique_id ''AA:BB:CC:DD:EE:FF'' = ''aabbccddeeff''"
  by code_simp

section \<open>C1: a configured identity aborts the run\<close>

text \<open>
  C1. Whenever a persisted record has the candidate's identity (the address with the
  colons removed, in lower case), the run aborts with reason \<open>already_configured\<close>
  where the identity becomes known: in \<open>async_step_bluetooth\<close>, and in
  \<open>_async_set_device\<close>, hence in both halves of \<open>async_step_user\<close>. The state of
  the run is arbitrary, so this holds whatever steps came before.
\<close>

theorem duplicate_aborts:
  "(format_unique_id (info_address discovery_info) \<in> set (current_ids env) \<longrightarrow>
      fst (async_step_bluetooth K env st discovery_info) =
        Inl (AbortFlow ''already_configured'')) \<and>
   (format_unique_id (adv_address discovery) \<in> set (current_ids env) \<longrightarrow>
      fst (async_set_device env st discovery) = Inl (AbortFlow ''already_configured'') \<and>
      (map_of ui (CONF_ADDRESS K) = Some (PStr address) \<and>
       map_of (discovered_advs st) address = Some discovery \<longrightarrow>
         fst (async_step_user K env st (Some ui)) = Inl (AbortFlow ''already_configured'')) \<and>
      (async_discover_devices K env st = (Inr (), st1) \<and>
       discovered_advs st1 = [(address, discovery)] \<longrightarrow>
         fst (async_step_user K env st None) = Inl (AbortFlow ''already_configured'')))"
proof (intro conjI impI)
  assume "format_unique_id (info_address discovery_info) \<in> set (current_ids env)"
  then show "fst (async_step_bluetooth K env st discovery_info) =
      Inl (AbortFlow ''already_configured'')"
    by (simp add: async_step_bluetooth_def Let_def abort_if_unique_id_configured_def
          async_set_unique_id_def async_current_ids_def)
next
  assume c: "format_unique_id (adv_address discovery) \<in> set (current_ids env)"
  then show "fst (async_set_device env st discovery) = Inl (AbortFlow ''already_configured'')"
    by (simp add: async_set_device_def Let_def abort_if_unique_id_configured_def
          async_set_unique_id_def async_current_ids_def)
next
  assume c: "format_unique_id (adv_address discovery) \<in> set (current_ids env)"
    and s: "map_of ui (CONF_ADDRESS K) = Some (PStr address) \<and>
       map_of (discovered_advs st) address = Some discovery"
  then show "fst (async_step_user K env st (Some ui)) = Inl (AbortFlow ''already_configured'')"
    by (simp add: async_step_user_def async_set_device_def Let_def
          abort_if_unique_id_configured_def async_set_unique_id_def async_current_ids_def)
next
  assume c: "format_unique_id (adv_address discovery) \<in> set (current_ids env)"
    and s: "async_discover_devices K env st = (Inr (), st1) \<and>
       discovered_advs st1 = [(address, discovery)]"
  then show "fst (async_step_user K env st None) = Inl (AbortFlow ''already_configured'')"
    by (simp add: async_step_user_def async_set_device_def Let_def
          abort_if_unique_id_configured_def async_set_unique_id_def async_current_ids_def)
qed


lemma fid_in: "format_unique_id ''AA:BB:CC:DD:EE:FF'' \<in> set (current_ids configured_hass)"
  by (simp add: fid_FF configured_hass_def quiet_hass_def)

lemma disc_bot: "async_discover_devices example_config configured_hass bot_flow = (Inr (), bot_flow)"
  by (simp add: async_discover_devices_def Let_def configured_hass_def quiet_hass_def bot_flow_def)

theorem duplicate_aborts_witness:
  "format_unique_id (info_address (bot_info True)) \<in> set (current_ids configured_hass) \<and>
   fst (async_step_bluetooth example_config configured_hass init_flow (bot_info True)) =
     Inl (AbortFlow ''already_configured'') \<and>
   fst (async_set_device configured_hass init_flow bot_adv) =
     Inl (AbortFlow ''already_configured'') \<and>
   fst (async_step_user example_config configured_hass bot_flow
          (Some [(''address'', PStr ''AA:BB:CC:DD:EE:FF'')])) =
     Inl (AbortFlow ''already_configured'') \<and>
   fst (async_step_user example_config configured_hass bot_flow None) =
     Inl (AbortFlow ''already_configured'')"
proof -
  have i: "info_address (bot_info True) = ''AA:BB:CC:DD:EE:FF''"
    and a: "adv_address bot_adv = ''AA:BB:CC:DD:EE:FF''"
    by (simp_all add: bot_info_def example_info_def bot_adv_def example_adv_def)
  have u: "map_of [(''address'', PStr ''AA:BB:CC:DD:EE:FF'')] (CONF_ADDRESS example_config) =
      Some (PStr ''AA:BB:CC:DD:EE:FF'')"
    by (simp add: example_config_def)
  have m: "map_of (discovered_advs bot_flow) ''AA:BB:CC:DD:EE:FF'' = Some bot_adv"
    and l: "discovered_advs bot_flow = [(''AA:BB:CC:DD:EE:FF'', bot_adv)]"
    by (simp_all add: bot_flow_def)
  from duplicate_aborts [where discovery_info = "bot_info True" and env = configured_hass
      and K = example_config and st = bot_flow and discovery = bot_adv
      and ui = "[(''address'', PStr ''AA:BB:CC:DD:EE:FF'')]"
      and address = "''AA:BB:CC:DD:EE:FF''" and ?st1.0 = bot_flow]
    duplicate_aborts [where discovery_info = "bot_info True" and env = configured_hass
      and K = example_config and st = init_flow and discovery = bot_adv]
    fid_in disc_bot i a u m l
  show ?thesis by simp
qed

lemma show_form_for_not_abort:
  "fst (show_form_for step_id schema errors discovery st) \<noteq> Inr (Abort reason)"
  by (simp add: show_form_for_def split: sum.splits)

lemma async_step_password_None_not_abort:
  "fst (async_step_password K st None) \<noteq> Inr (Abort reason)"
  by (simp add: async_step_password_def show_form_for_not_abort split: option.splits)

lemma async_step_confirm_None_not_abort:
  "fst (async_step_confirm K st None) \<noteq> Inr (Abort reason)"
  by (simp add: async_step_confirm_def show_form_for_not_abort split: option.splits)

lemma tables_rule:
  assumes "tables_consistent K"
  shows "(\<not> in_table m (SUPPORTED_MODEL_TYPES K) \<or>
          (\<not> connectable \<and> in_table m (CONNECTABLE_SUPPORTED_MODEL_TYPES K))) =
         (\<not> transport_compatible K connectable m)"
  using assms
  by (cases m) (auto simp: tables_consistent_def in_table_def transport_compatible_def)

lemma bluetooth_not_supported_iff:
  assumes "format_unique_id (info_address i) \<notin> set (current_ids env)"
  shows "(fst (async_step_bluetooth K env st i) = Inr (Abort ''not_supported'')) =
     (case parse_advertisement_data env (info_device i) (info_advertisement i) of
        None \<Rightarrow> True
      | Some p \<Rightarrow> \<not> in_table (modelName (adv_data p)) (SUPPORTED_MODEL_TYPES K) \<or>
          (\<not> info_connectable i \<and>
           in_table (modelName (adv_data p)) (CONNECTABLE_SUPPORTED_MODEL_TYPES K)))"
  using assms
  by (auto simp: async_step_bluetooth_def Let_def abort_if_unique_id_configured_def
        async_set_unique_id_def async_current_ids_def
        async_step_password_None_not_abort async_step_confirm_None_not_abort
      split: option.splits sum.splits bool.splits)

lemma discover_one_unchanged_iff:
  assumes "format_unique_id (info_address i) \<notin> set cur"
    and "info_address i \<notin> set (map fst advs)"
  shows "(discover_one K env cur i advs = advs) =
     (case parse_advertisement_data env (info_device i) (info_advertisement i) of
        None \<Rightarrow> True
      | Some p \<Rightarrow> \<not> transport_compatible K (info_connectable i) (modelName (adv_data p)))"
  using assms by (auto simp: discover_one_def Let_def split: option.splits)

lemma discover_one_keys:
  assumes "a \<in> set (map fst (discover_one K env cur i advs))"
  shows "a \<in> set (map fst advs) \<or>
     (info_address i = a \<and>
      (\<exists>p. parse_advertisement_data env (info_device i) (info_advertisement i) = Some p \<and>
           transport_compatible K (info_connectable i) (modelName (adv_data p))))"
  using assms by (auto simp: discover_one_def Let_def split: option.splits if_splits)

lemma fold_discover_keys:
  assumes "a \<in> set (map fst (fold (discover_one K env cur) infos advs))"
  shows "a \<in> set (map fst advs) \<or>
     (\<exists>i \<in> set infos. info_address i = a \<and>
      (\<exists>p. parse_advertisement_data env (info_device i) (info_advertisement i) = Some p \<and>
           transport_compatible K (info_connectable i) (modelName (adv_data p))))"
  using assms
proof (induction infos arbitrary: advs)
  case Nil
  then show ?case by simp
next
  case (Cons i infos)
  from Cons.prems have "a \<in> set (map fst (fold (discover_one K env cur) infos
      (discover_one K env cur i advs)))"
    by simp
  from Cons.IH [OF this] show ?case
  proof
    assume "a \<in> set (map fst (discover_one K env cur i advs))"
    from discover_one_keys [OF this] show ?thesis by auto
  next
    assume "\<exists>i \<in> set infos. info_address i = a \<and>
      (\<exists>p. parse_advertisement_data env (info_device i) (info_advertisement i) = Some p \<and>
           transport_compatible K (info_connectable i) (modelName (adv_data p)))"
    then show ?thesis by auto
  qed
qed

lemma discovered_advs_discover:
  "discovered_advs (snd (async_discover_devices K env st)) =
     fold (discover_one K env (current_ids env))
       (async_discovered_service_info env True @ async_discovered_service_info env False)
       (discovered_advs st)"
  by (simp add: async_discover_devices_def Let_def async_current_ids_def)


section \<open>C2: a connectable model seen over a transport that is not connectable\<close>

text \<open>
  C2 (as amended). Let the supported table be the union of the two transport tables,
  which share no model. For a discovery event that is not connectable and whose parsed
  model is in the connectable table, \<open>async_step_bluetooth\<close> aborts: with reason
  \<open>not_supported\<close>, unless a record with the event's identity exists, in which case
  the duplicate check has aborted with \<open>already_configured\<close> before; and the loop body
  of \<open>_async_discover_devices\<close> stores nothing. On an event that is neither configured
  nor discovered already, the passive step answers \<open>not_supported\<close> exactly when the
  active scan leaves the event out. An address that the scan sees only through such
  events is not among the discovered devices afterwards.
\<close>

theorem connectable_model_needs_connectable_transport:
  assumes tables: "tables_consistent K"
  shows
  "(\<not> info_connectable discovery_info \<and>
    parse_advertisement_data env (info_device discovery_info)
      (info_advertisement discovery_info) = Some parsed \<and>
    in_table (modelName (adv_data parsed)) (CONNECTABLE_SUPPORTED_MODEL_TYPES K) \<longrightarrow>
      fst (async_step_bluetooth K env st discovery_info) =
        (if format_unique_id (info_address discovery_info) \<in> set (current_ids env)
         then Inl (AbortFlow ''already_configured'')
         else Inr (Abort ''not_supported'')) \<and>
      discover_one K env current_addresses discovery_info advs = advs) \<and>
   (format_unique_id (info_address discovery_info) \<notin> set (current_ids env) \<and>
    info_address discovery_info \<notin> set (map fst advs) \<longrightarrow>
      (fst (async_step_bluetooth K env st discovery_info) = Inr (Abort ''not_supported'')) =
      (discover_one K env (current_ids env) discovery_info advs = advs)) \<and>
   (address \<notin> set (map fst (discovered_advs st)) \<and>
    (\<forall>i \<in> set (async_discovered_service_info env True @
                  async_discovered_service_info env False).
       info_address i = address \<longrightarrow>
         \<not> info_connectable i \<and>
         (\<exists>p. parse_advertisement_data env (info_device i) (info_advertisement i) = Some p \<and>
              in_table (modelName (adv_data p)) (CONNECTABLE_SUPPORTED_MODEL_TYPES K))) \<longrightarrow>
      address \<notin> set (map fst (discovered_advs (snd (async_discover_devices K env st)))))"
proof (intro conjI impI)
  assume h: "\<not> info_connectable discovery_info \<and>
    parse_advertisement_data env (info_device discovery_info)
      (info_advertisement discovery_info) = Some parsed \<and>
    in_table (modelName (adv_data parsed)) (CONNECTABLE_SUPPORTED_MODEL_TYPES K)"
  show "fst (async_step_bluetooth K env st discovery_info) =
        (if format_unique_id (info_address discovery_info) \<in> set (current_ids env)
         then Inl (AbortFlow ''already_configured'')
         else Inr (Abort ''not_supported''))"
    using h
    by (simp add: async_step_bluetooth_def Let_def abort_if_unique_id_configured_def
          async_set_unique_id_def async_current_ids_def)
  have "\<not> transport_compatible K (info_connectable discovery_info) (modelName (adv_data parsed))"
    using h tables_rule [OF tables, of "modelName (adv_data parsed)" "info_connectable discovery_info"]
    by simp
  with h show "discover_one K env current_addresses discovery_info advs = advs"
    by (simp add: discover_one_def Let_def)
next
  assume h: "format_unique_id (info_address discovery_info) \<notin> set (current_ids env) \<and>
    info_address discovery_info \<notin> set (map fst advs)"
  then have u: "format_unique_id (info_address discovery_info) \<notin> set (current_ids env)"
    and n: "info_address discovery_info \<notin> set (map fst advs)"
    by blast+
  show "(fst (async_step_bluetooth K env st discovery_info) = Inr (Abort ''not_supported'')) =
      (discover_one K env (current_ids env) discovery_info advs = advs)"
    unfolding bluetooth_not_supported_iff [OF u] discover_one_unchanged_iff [OF u n]
  proof (cases "parse_advertisement_data env (info_device discovery_info)
      (info_advertisement discovery_info)")
    case None
    then show "(case parse_advertisement_data env (info_device discovery_info)
          (info_advertisement discovery_info) of
        None \<Rightarrow> True
      | Some p \<Rightarrow> \<not> in_table (modelName (adv_data p)) (SUPPORTED_MODEL_TYPES K) \<or>
          (\<not> info_connectable discovery_info \<and>
           in_table (modelName (adv_data p)) (CONNECTABLE_SUPPORTED_MODEL_TYPES K))) =
      (case parse_advertisement_data env (info_device discovery_info)
          (info_advertisement discovery_info) of
        None \<Rightarrow> True
      | Some p \<Rightarrow> \<not> transport_compatible K (info_connectable discovery_info)
          (modelName (adv_data p)))"
      by simp
  next
    case (Some p)
    then show "(case parse_advertisement_data env (info_device discovery_info)
          (info_advertisement discovery_info) of
        None \<Rightarrow> True
      | Some p \<Rightarrow> \<not> in_table (modelName (adv_data p)) (SUPPORTED_MODEL_TYPES K) \<or>
          (\<not> info_connectable discovery_info \<and>
           in_table (modelName (adv_data p)) (CONNECTABLE_SUPPORTED_MODEL_TYPES K))) =
      (case parse_advertisement_data env (info_device discovery_info)
          (info_advertisement discovery_info) of
        None \<Rightarrow> True
      | Some p \<Rightarrow> \<not> transport_compatible K (info_connectable discovery_info)
          (modelName (adv_data p)))"
      using tables_rule [OF tables, of "modelName (adv_data p)"
          "info_connectable discovery_info"]
      by auto
  qed
next
  assume h: "address \<notin> set (map fst (discovered_advs st)) \<and>
    (\<forall>i \<in> set (async_discovered_service_info env True @
                  async_discovered_service_info env False).
       info_address i = address \<longrightarrow>
         \<not> info_connectable i \<and>
         (\<exists>p. parse_advertisement_data env (info_device i) (info_advertisement i) = Some p \<and>
              in_table (modelName (adv_data p)) (CONNECTABLE_SUPPORTED_MODEL_TYPES K)))"
  show "address \<notin> set (map fst (discovered_advs (snd (async_discover_devices K env st))))"
  proof
    assume "address \<in> set (map fst (discovered_advs (snd (async_discover_devices K env st))))"
    then have "address \<in> set (map fst (fold (discover_one K env (current_ids env))
       (async_discovered_service_info env True @ async_discovered_service_info env False)
       (discovered_advs st)))"
      by (simp only: discovered_advs_discover)
    from fold_discover_keys [OF this] h
    obtain i p where i: "i \<in> set (async_discovered_service_info env True @
                  async_discovered_service_info env False)"
      and a: "info_address i = address"
      and p: "parse_advertisement_data env (info_device i) (info_advertisement i) = Some p"
      and c: "transport_compatible K (info_connectable i) (modelName (adv_data p))"
      by blast
    from h i a p have "\<not> info_connectable i"
      and "in_table (modelName (adv_data p)) (CONNECTABLE_SUPPORTED_MODEL_TYPES K)"
      by auto
    with tables_rule [OF tables, of "modelName (adv_data p)" "info_connectable i"] c
    show False by simp
  qed
qed

lemma fid_03: "format_unique_id ''AA:BB:CC:DD:EE:03'' = ''aabbccddee03''"
  by code_simp

lemma example_tables_consistent: "tables_consistent example_config"
  by (auto simp: tables_consistent_def example_config_def)

lemma lock_info_fields:
  "info_address (lock_info c) = ''AA:BB:CC:DD:EE:03''"
  "info_device (lock_info c) = ''AA:BB:CC:DD:EE:03''"
  "info_advertisement (lock_info c) = ''Lock''"
  "info_connectable (lock_info c) = c"
  by (simp_all add: lock_info_def example_info_def)

lemma parse_lock: "example_parse ''AA:BB:CC:DD:EE:03'' ''Lock'' = Some lock_adv"
  by (simp add: example_parse_def lock_adv_def)

lemma lock_in_connectable:
  "in_table (modelName (adv_data lock_adv)) (CONNECTABLE_SUPPORTED_MODEL_TYPES example_config)"
  by (simp add: in_table_def lock_adv_def example_adv_def example_config_def)

theorem connectable_model_needs_connectable_transport_witness:
  "tables_consistent example_config \<and>
   \<not> info_connectable (lock_info False) \<and>
   fst (async_step_bluetooth example_config lock_scan_hass init_flow (lock_info False)) =
     Inr (Abort ''not_supported'') \<and>
   discover_one example_config lock_scan_hass [] (lock_info False) [] = [] \<and>
   ''AA:BB:CC:DD:EE:03'' \<notin> set (map fst (discovered_advs
      (snd (async_discover_devices example_config lock_scan_hass init_flow))))"
proof -
  have p: "parse_advertisement_data lock_scan_hass (info_device (lock_info False))
      (info_advertisement (lock_info False)) = Some lock_adv"
    by (simp add: lock_scan_hass_def quiet_hass_def lock_info_fields parse_lock)
  have u: "format_unique_id (info_address (lock_info False)) \<notin> set (current_ids lock_scan_hass)"
    by (simp add: lock_scan_hass_def quiet_hass_def)
  have s: "async_discovered_service_info lock_scan_hass True @
      async_discovered_service_info lock_scan_hass False = [lock_info False]"
    by (simp add: lock_scan_hass_def quiet_hass_def)
  have i: "discovered_advs init_flow = []"
    by (simp add: init_flow_def)
  from connectable_model_needs_connectable_transport [OF example_tables_consistent,
      where discovery_info = "lock_info False" and env = lock_scan_hass and parsed = lock_adv
      and st = init_flow and current_addresses = "[]" and advs = "[]"
      and address = "''AA:BB:CC:DD:EE:03''"]
    p u s i lock_in_connectable example_tables_consistent
  show ?thesis by (simp add: lock_info_fields)
qed

text \<open>
  The claim as first stated lets the passive step abort with \<open>not_supported\<close> for
  every such event. For a lock that is configured already and is seen over a transport
  that is not connectable, the step aborts with \<open>already_configured\<close> instead.
\<close>

theorem passive_abort_reason_counterexample:
  "\<not> info_connectable (lock_info False) \<and>
   parse_advertisement_data lock_configured_hass (info_device (lock_info False))
     (info_advertisement (lock_info False)) = Some lock_adv \<and>
   in_table (modelName (adv_data lock_adv)) (CONNECTABLE_SUPPORTED_MODEL_TYPES example_config) \<and>
   fst (async_step_bluetooth example_config lock_configured_hass init_flow (lock_info False)) =
     Inl (AbortFlow ''already_configured'') \<and>
   fst (async_step_bluetooth example_config lock_configured_hass init_flow (lock_info False)) \<noteq>
     Inr (Abort ''not_supported'')"
proof -
  have r: "fst (async_step_bluetooth example_config lock_configured_hass init_flow
      (lock_info False)) = Inl (AbortFlow ''already_configured'')"
    by (simp add: async_step_bluetooth_def Let_def abort_if_unique_id_configured_def
          async_set_unique_id_def async_current_ids_def lock_configured_hass_def
          quiet_hass_def lock_info_fields fid_03)
  have p: "parse_advertisement_data lock_configured_hass (info_device (lock_info False))
      (info_advertisement (lock_info False)) = Some lock_adv"
    by (simp add: lock_configured_hass_def quiet_hass_def lock_info_fields parse_lock)
  show ?thesis
    using r p lock_in_connectable by (simp add: lock_info_fields)
qed

lemma show_form_for_named:
  "name_from_discovery discovery = Inr name \<Longrightarrow>
   show_form_for step_id schema errors discovery st =
     (Inr (ShowForm step_id schema errors (Some [(''name'', name)])), st)"
  by (simp add: show_form_for_def)

lemma lock_auth_RuntimeError:
  assumes "discovered_adv st = Some discovery"
    and "name_from_discovery discovery = Inr name"
    and "retrieve_lock_key K env (adv_address discovery)
           (map_of ui (CONF_USERNAME K)) (map_of ui (CONF_PASSWORD K)) = Inl (RuntimeError m)"
  shows "async_step_lock_auth K env st (Some ui) =
     (Inr (ShowForm ''lock_auth'' [(CONF_USERNAME K, TStr), (CONF_PASSWORD K, TStr)]
        (Some [(CONF_USERNAME K, ''auth_failed'')]) (Some [(''name'', name)])), st)"
  using assms by (simp add: async_step_lock_auth_def Let_def show_form_for_named)

lemma name_lock_adv: "name_from_discovery lock_adv = Inr ''Lock EE03''"
  by code_simp

section \<open>C3: rejection and other failures of the key retrieval\<close>

text \<open>
  C3 (as amended). \<open>retrieve_lock_key\<close> raises RuntimeError with the message
  \<open>Failed to authenticate\<close> on the explicit rejection by the identity service, and
  RuntimeError with another message on any other exception of the authentication call
  and on a missing response. \<open>async_step_lock_auth\<close> makes no use of the message: on
  every RuntimeError it renders the form \<open>lock_auth\<close> again, in the same state, with the
  one error \<open>auth_failed\<close> on the user name.
\<close>

theorem lock_auth_one_error_for_every_failure:
  "(initiate_auth env user password (hmac_sha256_b64 env AppClientSecret (user @ AppClientId)) =
      NotAuthorizedException \<longrightarrow>
    retrieve_lock_key K env device_mac (Some (PStr user)) password =
      Inl (RuntimeError ''Failed to authenticate'')) \<and>
   (initiate_auth env user password (hmac_sha256_b64 env AppClientSecret (user @ AppClientId)) =
      AuthRaises err \<longrightarrow>
    retrieve_lock_key K env device_mac (Some (PStr user)) password =
      Inl (RuntimeError ''Unexpected error during authentication'')) \<and>
   (initiate_auth env user password (hmac_sha256_b64 env AppClientSecret (user @ AppClientId)) =
      AuthReturns None \<longrightarrow>
    retrieve_lock_key K env device_mac (Some (PStr user)) password =
      Inl (RuntimeError ''Unexpected authentication response'')) \<and>
   (discovered_adv st = Some discovery \<and> name_from_discovery discovery = Inr name \<and>
    retrieve_lock_key K env (adv_address discovery)
      (map_of ui (CONF_USERNAME K)) (map_of ui (CONF_PASSWORD K)) = Inl (RuntimeError m) \<longrightarrow>
    async_step_lock_auth K env st (Some ui) =
      (Inr (ShowForm ''lock_auth'' [(CONF_USERNAME K, TStr), (CONF_PASSWORD K, TStr)]
         (Some [(CONF_USERNAME K, ''auth_failed'')]) (Some [(''name'', name)])), st))"
proof (intro conjI impI)
  assume "initiate_auth env user password
      (hmac_sha256_b64 env AppClientSecret (user @ AppClientId)) = NotAuthorizedException"
  then show "retrieve_lock_key K env device_mac (Some (PStr user)) password =
      Inl (RuntimeError ''Failed to authenticate'')"
    by (simp add: retrieve_lock_key_def Let_def)
next
  assume "initiate_auth env user password
      (hmac_sha256_b64 env AppClientSecret (user @ AppClientId)) = AuthRaises err"
  then show "retrieve_lock_key K env device_mac (Some (PStr user)) password =
      Inl (RuntimeError ''Unexpected error during authentication'')"
    by (simp add: retrieve_lock_key_def Let_def)
next
  assume "initiate_auth env user password
      (hmac_sha256_b64 env AppClientSecret (user @ AppClientId)) = AuthReturns None"
  then show "retrieve_lock_key K env device_mac (Some (PStr user)) password =
      Inl (RuntimeError ''Unexpected authentication response'')"
    by (simp add: retrieve_lock_key_def Let_def)
next
  assume "discovered_adv st = Some discovery \<and> name_from_discovery discovery = Inr name \<and>
    retrieve_lock_key K env (adv_address discovery)
      (map_of ui (CONF_USERNAME K)) (map_of ui (CONF_PASSWORD K)) = Inl (RuntimeError m)"
  then show "async_step_lock_auth K env st (Some ui) =
      (Inr (ShowForm ''lock_auth'' [(CONF_USERNAME K, TStr), (CONF_PASSWORD K, TStr)]
         (Some [(CONF_USERNAME K, ''auth_failed'')]) (Some [(''name'', name)])), st)"
    by (simp add: lock_auth_RuntimeError)
qed

lemma retrieve_rejected:
  "retrieve_lock_key example_config quiet_hass ''AA:BB:CC:DD:EE:03''
     (Some (PStr ''user'')) (Some (PStr ''secret'')) =
   Inl (RuntimeError ''Failed to authenticate'')"
  by (simp add: retrieve_lock_key_def Let_def quiet_hass_def)

lemma retrieve_outage:
  "retrieve_lock_key example_config outage_hass ''AA:BB:CC:DD:EE:03''
     (Some (PStr ''user'')) (Some (PStr ''secret'')) =
   Inl (RuntimeError ''Unexpected error during authentication'')"
  by (simp add: retrieve_lock_key_def Let_def outage_hass_def quiet_hass_def)

lemma login_fields:
  "map_of login (CONF_USERNAME example_config) = Some (PStr ''user'')"
  "map_of login (CONF_PASSWORD example_config) = Some (PStr ''secret'')"
  by (simp_all add: login_def example_config_def)

lemma lock_flow_adv: "discovered_adv lock_flow = Some lock_adv"
  by (simp add: lock_flow_def)

lemma lock_adv_address: "adv_address lock_adv = ''AA:BB:CC:DD:EE:03''"
  by (simp add: lock_adv_def example_adv_def)

theorem lock_auth_one_error_for_every_failure_witness:
  "retrieve_lock_key example_config quiet_hass ''AA:BB:CC:DD:EE:03''
     (Some (PStr ''user'')) (Some (PStr ''secret'')) =
     Inl (RuntimeError ''Failed to authenticate'') \<and>
   async_step_lock_auth example_config quiet_hass lock_flow (Some login) =
     (Inr (ShowForm ''lock_auth'' [(''username'', TStr), (''password'', TStr)]
        (Some [(''username'', ''auth_failed'')]) (Some [(''name'', ''Lock EE03'')])), lock_flow)"
proof -
  have a: "initiate_auth quiet_hass ''user'' (Some (PStr ''secret''))
      (hmac_sha256_b64 quiet_hass AppClientSecret (''user'' @ AppClientId)) =
      NotAuthorizedException"
    by (simp add: quiet_hass_def)
  have k: "CONF_USERNAME example_config = ''username''"
    "CONF_PASSWORD example_config = ''password''"
    by (simp_all add: example_config_def)
  from lock_auth_one_error_for_every_failure [where env = quiet_hass and user = "''user''"
      and password = "Some (PStr ''secret'')" and K = example_config
      and device_mac = "''AA:BB:CC:DD:EE:03''" and st = lock_flow and discovery = lock_adv
      and name = "''Lock EE03''" and ui = login and m = "''Failed to authenticate''"]
    a lock_flow_adv name_lock_adv retrieve_rejected
  show ?thesis by (simp add: login_def lock_adv_address k)
qed

text \<open>
  The claim as first stated has the step render one message for a rejection and another
  for every other failure. A rejected login and an outage of the identity service are told
  apart by \<open>retrieve_lock_key\<close>, and the step renders the same result for both.
\<close>

theorem lock_auth_same_error_counterexample:
  "retrieve_lock_key example_config quiet_hass ''AA:BB:CC:DD:EE:03''
     (Some (PStr ''user'')) (Some (PStr ''secret'')) =
     Inl (RuntimeError ''Failed to authenticate'') \<and>
   retrieve_lock_key example_config outage_hass ''AA:BB:CC:DD:EE:03''
     (Some (PStr ''user'')) (Some (PStr ''secret'')) =
     Inl (RuntimeError ''Unexpected error during authentication'') \<and>
   async_step_lock_auth example_config quiet_hass lock_flow (Some login) =
     async_step_lock_auth example_config outage_hass lock_flow (Some login)"
proof -
  have q: "async_step_lock_auth example_config quiet_hass lock_flow (Some login) =
     (Inr (ShowForm ''lock_auth''
        [(CONF_USERNAME example_config, TStr), (CONF_PASSWORD example_config, TStr)]
        (Some [(CONF_USERNAME example_config, ''auth_failed'')])
        (Some [(''name'', ''Lock EE03'')])), lock_flow)"
    by (rule lock_auth_RuntimeError [OF lock_flow_adv name_lock_adv])
       (simp add: login_fields lock_adv_address retrieve_rejected)
  have o: "async_step_lock_auth example_config outage_hass lock_flow (Some login) =
     (Inr (ShowForm ''lock_auth''
        [(CONF_USERNAME example_config, TStr), (CONF_PASSWORD example_config, TStr)]
        (Some [(CONF_USERNAME example_config, ''auth_failed'')])
        (Some [(''name'', ''Lock EE03'')])), lock_flow)"
    by (rule lock_auth_RuntimeError [OF lock_flow_adv name_lock_adv])
       (simp add: login_fields lock_adv_address retrieve_outage)
  show ?thesis
    using retrieve_rejected retrieve_outage by (simp add: q o)
qed

lemma lock_key_rejected:
  assumes "discovered_adv st = Some discovery"
    and "name_from_discovery discovery = Inr name"
    and "verify_encryption_key env (adv_device discovery)
           (map_of ui (CONF_KEY_ID K)) (map_of ui (CONF_ENCRYPTION_KEY K)) = Inr False"
  shows "async_step_lock_key K env st (Some ui) =
     (Inr (ShowForm ''lock_key'' [(CONF_KEY_ID K, TStr), (CONF_ENCRYPTION_KEY K, TStr)]
        (Some (dict2 (CONF_KEY_ID K) ''key_id_invalid''
                 (CONF_ENCRYPTION_KEY K) ''encryption_key_invalid''))
        (Some [(''name'', name)])), st)"
  using assms by (simp add: async_step_lock_key_def Let_def show_form_for_named)

lemma lock_auth_key_rejected:
  assumes "discovered_adv st = Some discovery"
    and "name_from_discovery discovery = Inr name"
    and "retrieve_lock_key K env (adv_address discovery)
           (map_of ui (CONF_USERNAME K)) (map_of ui (CONF_PASSWORD K)) = Inr key_details"
    and "verify_encryption_key env (adv_device discovery)
           (map_of key_details (CONF_KEY_ID K))
           (map_of key_details (CONF_ENCRYPTION_KEY K)) = Inr False"
  shows "async_step_lock_auth K env st (Some ui) =
     (Inr (ShowForm ''lock_key'' [(CONF_KEY_ID K, TStr), (CONF_ENCRYPTION_KEY K, TStr)]
        (Some (dict2 (CONF_KEY_ID K) ''key_id_invalid''
                 (CONF_ENCRYPTION_KEY K) ''encryption_key_invalid''))
        (Some [(''name'', name)])), st)"
  using assms by (simp add: async_step_lock_auth_def Let_def lock_key_rejected)

lemma resubmit_lock_auth:
  assumes "discovered_adv st = Some discovery"
    and "name_from_discovery discovery = Inr name"
    and "\<forall>(env, ui) \<in> set submissions.
           \<exists>m. retrieve_lock_key K env (adv_address discovery)
                  (map_of ui (CONF_USERNAME K)) (map_of ui (CONF_PASSWORD K)) =
                Inl (RuntimeError m)"
  shows "resubmit (async_step_lock_auth K) st submissions =
     (replicate (length submissions)
        (Inr (ShowForm ''lock_auth'' [(CONF_USERNAME K, TStr), (CONF_PASSWORD K, TStr)]
           (Some [(CONF_USERNAME K, ''auth_failed'')]) (Some [(''name'', name)]))), st)"
  using assms(3)
proof (induction submissions)
  case Nil
  show ?case by simp
next
  case (Cons s submissions)
  obtain env ui where s: "s = (env, ui)" by (cases s)
  from Cons.prems s obtain m where
    "retrieve_lock_key K env (adv_address discovery)
       (map_of ui (CONF_USERNAME K)) (map_of ui (CONF_PASSWORD K)) = Inl (RuntimeError m)"
    by auto
  from lock_auth_RuntimeError [OF assms(1) assms(2) this] Cons.IH Cons.prems
  show ?case by (simp add: s)
qed

lemma resubmit_lock_key:
  assumes "discovered_adv st = Some discovery"
    and "name_from_discovery discovery = Inr name"
    and "\<forall>(env, ui) \<in> set submissions.
           verify_encryption_key env (adv_device discovery)
             (map_of ui (CONF_KEY_ID K)) (map_of ui (CONF_ENCRYPTION_KEY K)) = Inr False"
  shows "resubmit (async_step_lock_key K) st submissions =
     (replicate (length submissions)
        (Inr (ShowForm ''lock_key'' [(CONF_KEY_ID K, TStr), (CONF_ENCRYPTION_KEY K, TStr)]
           (Some (dict2 (CONF_KEY_ID K) ''key_id_invalid''
                    (CONF_ENCRYPTION_KEY K) ''encryption_key_invalid''))
           (Some [(''name'', name)]))), st)"
  using assms(3)
proof (induction submissions)
  case Nil
  show ?case by simp
next
  case (Cons s submissions)
  obtain env ui where s: "s = (env, ui)" by (cases s)
  from Cons.prems s have
    "verify_encryption_key env (adv_device discovery)
       (map_of ui (CONF_KEY_ID K)) (map_of ui (CONF_ENCRYPTION_KEY K)) = Inr False"
    by auto
  from lock_key_rejected [OF assms(1) assms(2) this] Cons.IH Cons.prems
  show ?case by (simp add: s)
qed

section \<open>C4: failed submissions\<close>

text \<open>
  C4 (as amended). Let a device be selected and have a name. In the credential step, any
  number of consecutive submissions for each of which \<open>retrieve_lock_key\<close> raises a
  RuntimeError render the form \<open>lock_auth\<close> each time, with the error \<open>auth_failed\<close> on
  the user name, and leave the state of the run as it was. In the secret step, any number
  of consecutive submissions whose key the lock rejects render the form \<open>lock_key\<close> each
  time, with an error on both fields, and leave the state as it was. A submission to
  the credential step whose key retrieval succeeds and whose key the lock rejects renders
  the form \<open>lock_key\<close> with the errors of the secret step, the state unchanged.
\<close>

theorem failed_submissions_render_the_same_form:
  assumes "discovered_adv st = Some discovery"
    and "name_from_discovery discovery = Inr name"
  shows
  "((\<forall>(env, ui) \<in> set submissions.
       \<exists>m. retrieve_lock_key K env (adv_address discovery)
              (map_of ui (CONF_USERNAME K)) (map_of ui (CONF_PASSWORD K)) =
            Inl (RuntimeError m)) \<longrightarrow>
    resubmit (async_step_lock_auth K) st submissions =
      (replicate (length submissions)
         (Inr (ShowForm ''lock_auth'' [(CONF_USERNAME K, TStr), (CONF_PASSWORD K, TStr)]
            (Some [(CONF_USERNAME K, ''auth_failed'')]) (Some [(''name'', name)]))), st)) \<and>
   ((\<forall>(env, ui) \<in> set submissions.
       verify_encryption_key env (adv_device discovery)
         (map_of ui (CONF_KEY_ID K)) (map_of ui (CONF_ENCRYPTION_KEY K)) = Inr False) \<longrightarrow>
    resubmit (async_step_lock_key K) st submissions =
      (replicate (length submissions)
         (Inr (ShowForm ''lock_key'' [(CONF_KEY_ID K, TStr), (CONF_ENCRYPTION_KEY K, TStr)]
            (Some (dict2 (CONF_KEY_ID K) ''key_id_invalid''
                     (CONF_ENCRYPTION_KEY K) ''encryption_key_invalid''))
            (Some [(''name'', name)]))), st)) \<and>
   (retrieve_lock_key K env (adv_address discovery)
      (map_of ui (CONF_USERNAME K)) (map_of ui (CONF_PASSWORD K)) = Inr key_details \<and>
    verify_encryption_key env (adv_device discovery)
      (map_of key_details (CONF_KEY_ID K))
      (map_of key_details (CONF_ENCRYPTION_KEY K)) = Inr False \<longrightarrow>
    async_step_lock_auth K env st (Some ui) =
      (Inr (ShowForm ''lock_key'' [(CONF_KEY_ID K, TStr), (CONF_ENCRYPTION_KEY K, TStr)]
         (Some (dict2 (CONF_KEY_ID K) ''key_id_invalid''
                  (CONF_ENCRYPTION_KEY K) ''encryption_key_invalid''))
         (Some [(''name'', name)])), st))"
  using resubmit_lock_auth [OF assms] resubmit_lock_key [OF assms]
    lock_auth_key_rejected [OF assms]
  by blast


lemma example_keys:
  "CONF_USERNAME example_config = ''username''"
  "CONF_PASSWORD example_config = ''password''"
  "CONF_KEY_ID example_config = ''key_id''"
  "CONF_ENCRYPTION_KEY example_config = ''encryption_key''"
  "CONF_ADDRESS example_config = ''address''"
  "CONF_SENSOR_TYPE example_config = ''sensor_type''"
  by (simp_all add: example_config_def)

lemma length_two: "length [x, y] = 2"
  by simp

lemma dict2_keys:
  "dict2 ''key_id'' a ''encryption_key'' b = [(''key_id'', a), (''encryption_key'', b)]"
  by (simp add: dict2_def)

lemma retrieve_cloud:
  "retrieve_lock_key example_config cloud_hass ''AA:BB:CC:DD:EE:03''
     (Some (PStr ''user'')) (Some (PStr ''secret'')) =
   Inr [(''key_id'', PStr ''ff''), (''encryption_key'', PStr ''00112233'')]"
  by (simp add: retrieve_lock_key_def Let_def cloud_hass_def quiet_hass_def key_response_def
        subscript_def dict2_def example_keys)

lemma retrieve_timeout:
  "retrieve_lock_key example_config timeout_hass ''AA:BB:CC:DD:EE:03''
     (Some (PStr ''user'')) (Some (PStr ''secret'')) = Inl RequestException"
  by (simp add: retrieve_lock_key_def Let_def timeout_hass_def cloud_hass_def quiet_hass_def)

lemma lock_adv_device: "adv_device lock_adv = ''AA:BB:CC:DD:EE:03''"
  by (simp add: lock_adv_def example_adv_def)

lemma cloud_rejects_key:
  "verify_encryption_key cloud_hass device key_id key = Inr False"
  "verify_encryption_key quiet_hass device key_id key = Inr False"
  by (simp_all add: cloud_hass_def quiet_hass_def)

theorem failed_submissions_render_the_same_form_witness:
  "resubmit (async_step_lock_auth example_config) lock_flow
     [(quiet_hass, login), (outage_hass, login)] =
     (replicate 2
        (Inr (ShowForm ''lock_auth'' [(''username'', TStr), (''password'', TStr)]
           (Some [(''username'', ''auth_failed'')]) (Some [(''name'', ''Lock EE03'')]))),
      lock_flow) \<and>
   resubmit (async_step_lock_key example_config) lock_flow
     [(quiet_hass, key_input), (cloud_hass, key_input)] =
     (replicate 2
        (Inr (ShowForm ''lock_key'' [(''key_id'', TStr), (''encryption_key'', TStr)]
           (Some [(''key_id'', ''key_id_invalid''),
                  (''encryption_key'', ''encryption_key_invalid'')])
           (Some [(''name'', ''Lock EE03'')]))),
      lock_flow) \<and>
   async_step_lock_auth example_config cloud_hass lock_flow (Some login) =
     (Inr (ShowForm ''lock_key'' [(''key_id'', TStr), (''encryption_key'', TStr)]
        (Some [(''key_id'', ''key_id_invalid''),
               (''encryption_key'', ''encryption_key_invalid'')])
        (Some [(''name'', ''Lock EE03'')])), lock_flow)"
proof -
  have a: "\<forall>(env, ui) \<in> set [(quiet_hass, login), (outage_hass, login)].
       \<exists>m. retrieve_lock_key example_config env (adv_address lock_adv)
              (map_of ui (CONF_USERNAME example_config))
              (map_of ui (CONF_PASSWORD example_config)) = Inl (RuntimeError m)"
    by (simp add: login_fields lock_adv_address retrieve_rejected retrieve_outage)
  have k: "\<forall>(env, ui) \<in> set [(quiet_hass, key_input), (cloud_hass, key_input)].
       verify_encryption_key env (adv_device lock_adv)
         (map_of ui (CONF_KEY_ID example_config))
         (map_of ui (CONF_ENCRYPTION_KEY example_config)) = Inr False"
    by (simp add: cloud_rejects_key)
  have r: "retrieve_lock_key example_config cloud_hass (adv_address lock_adv)
      (map_of login (CONF_USERNAME example_config))
      (map_of login (CONF_PASSWORD example_config)) =
      Inr [(''key_id'', PStr ''ff''), (''encryption_key'', PStr ''00112233'')]"
    by (simp add: login_fields lock_adv_address retrieve_cloud)
  have v: "verify_encryption_key cloud_hass (adv_device lock_adv)
      (map_of [(''key_id'', PStr ''ff''), (''encryption_key'', PStr ''00112233'')]
         (CONF_KEY_ID example_config))
      (map_of [(''key_id'', PStr ''ff''), (''encryption_key'', PStr ''00112233'')]
         (CONF_ENCRYPTION_KEY example_config)) = Inr False"
    by (simp add: cloud_rejects_key)
  note t = failed_submissions_render_the_same_form [OF lock_flow_adv name_lock_adv,
      where K = example_config]
  from t [where submissions = "[(quiet_hass, login), (outage_hass, login)]"] a
  have "resubmit (async_step_lock_auth example_config) lock_flow
     [(quiet_hass, login), (outage_hass, login)] =
     (replicate (length [(quiet_hass, login), (outage_hass, login)])
        (Inr (ShowForm ''lock_auth''
           [(CONF_USERNAME example_config, TStr), (CONF_PASSWORD example_config, TStr)]
           (Some [(CONF_USERNAME example_config, ''auth_failed'')])
           (Some [(''name'', ''Lock EE03'')]))),
      lock_flow)"
    by blast
  then have c1: "resubmit (async_step_lock_auth example_config) lock_flow
     [(quiet_hass, login), (outage_hass, login)] =
     (replicate 2
        (Inr (ShowForm ''lock_auth'' [(''username'', TStr), (''password'', TStr)]
           (Some [(''username'', ''auth_failed'')]) (Some [(''name'', ''Lock EE03'')]))),
      lock_flow)"
    by (simp only: example_keys length_two)
  from t [where submissions = "[(quiet_hass, key_input), (cloud_hass, key_input)]"] k
  have "resubmit (async_step_lock_key example_config) lock_flow
     [(quiet_hass, key_input), (cloud_hass, key_input)] =
     (replicate (length [(quiet_hass, key_input), (cloud_hass, key_input)])
        (Inr (ShowForm ''lock_key''
           [(CONF_KEY_ID example_config, TStr), (CONF_ENCRYPTION_KEY example_config, TStr)]
           (Some (dict2 (CONF_KEY_ID example_config) ''key_id_invalid''
                    (CONF_ENCRYPTION_KEY example_config) ''encryption_key_invalid''))
           (Some [(''name'', ''Lock EE03'')]))),
      lock_flow)"
    by blast
  then have c2: "resubmit (async_step_lock_key example_config) lock_flow
     [(quiet_hass, key_input), (cloud_hass, key_input)] =
     (replicate 2
        (Inr (ShowForm ''lock_key'' [(''key_id'', TStr), (''encryption_key'', TStr)]
           (Some [(''key_id'', ''key_id_invalid''),
                  (''encryption_key'', ''encryption_key_invalid'')])
           (Some [(''name'', ''Lock EE03'')]))),
      lock_flow)"
    by (simp only: example_keys length_two dict2_keys)
  from t [where env = cloud_hass and ui = login
      and key_details = "[(''key_id'', PStr ''ff''), (''encryption_key'', PStr ''00112233'')]"]
    r v
  have "async_step_lock_auth example_config cloud_hass lock_flow (Some login) =
     (Inr (ShowForm ''lock_key''
        [(CONF_KEY_ID example_config, TStr), (CONF_ENCRYPTION_KEY example_config, TStr)]
        (Some (dict2 (CONF_KEY_ID example_config) ''key_id_invalid''
                 (CONF_ENCRYPTION_KEY example_config) ''encryption_key_invalid''))
        (Some [(''name'', ''Lock EE03'')])), lock_flow)"
    by blast
  then have c3: "async_step_lock_auth example_config cloud_hass lock_flow (Some login) =
     (Inr (ShowForm ''lock_key'' [(''key_id'', TStr), (''encryption_key'', TStr)]
        (Some [(''key_id'', ''key_id_invalid''),
               (''encryption_key'', ''encryption_key_invalid'')])
        (Some [(''name'', ''Lock EE03'')])), lock_flow)"
    by (simp only: example_keys dict2_keys)
  from c1 c2 c3 show ?thesis by blast
qed

text \<open>
  The claim as first stated covers every failure of an external call in the credential
  step. When the request for the key times out, \<open>async_step_lock_auth\<close> renders no form:
  the exception of \<open>requests.post\<close> leaves the step. When the cloud returns a key that
  the lock rejects, the form rendered is \<open>lock_key\<close>, not \<open>lock_auth\<close>.
\<close>

theorem lock_auth_failure_counterexample:
  "async_step_lock_auth example_config timeout_hass lock_flow (Some login) =
     (Inl RequestException, lock_flow) \<and>
   async_step_lock_auth example_config cloud_hass lock_flow (Some login) =
     (Inr (ShowForm ''lock_key'' [(''key_id'', TStr), (''encryption_key'', TStr)]
        (Some [(''key_id'', ''key_id_invalid''),
               (''encryption_key'', ''encryption_key_invalid'')])
        (Some [(''name'', ''Lock EE03'')])), lock_flow)"
proof -
  have a: "async_step_lock_auth example_config timeout_hass lock_flow (Some login) =
     (Inl RequestException, lock_flow)"
    by (simp add: async_step_lock_auth_def Let_def lock_flow_adv login_fields
          lock_adv_address retrieve_timeout)
  have r: "retrieve_lock_key example_config cloud_hass (adv_address lock_adv)
      (map_of login (CONF_USERNAME example_config))
      (map_of login (CONF_PASSWORD example_config)) =
      Inr [(''key_id'', PStr ''ff''), (''encryption_key'', PStr ''00112233'')]"
    by (simp add: login_fields lock_adv_address retrieve_cloud)
  have b: "async_step_lock_auth example_config cloud_hass lock_flow (Some login) =
     (Inr (ShowForm ''lock_key'' [(''key_id'', TStr), (''encryption_key'', TStr)]
        (Some [(''key_id'', ''key_id_invalid''),
               (''encryption_key'', ''encryption_key_invalid'')])
        (Some [(''name'', ''Lock EE03'')])), lock_flow)"
    using lock_auth_key_rejected [OF lock_flow_adv name_lock_adv r cloud_rejects_key(1)]
    by (simp only: example_keys dict2_keys)
  from a b show ?thesis by blast
qed

lemma retrieve_lock_key_Inr:
  assumes "retrieve_lock_key K env device_mac username password = Inr key_details"
  shows "\<exists>key_id key. key_details = dict2 (CONF_KEY_ID K) key_id (CONF_ENCRYPTION_KEY K) key"
  using assms
  by (auto simp: retrieve_lock_key_def Let_def
      split: option.splits pyval.splits auth_outcome.splits post_outcome.splits
        sum.splits if_splits)

lemma create_entry_named:
  assumes "discovered_adv st = Some discovery"
    and "name_from_discovery discovery = Inr name"
    and "modelName (adv_data discovery) = Some model_name"
    and "map_of (SUPPORTED_MODEL_TYPES K) model_name = Some sensor_type"
  shows "async_create_entry_from_discovery K st user_input =
     (Inr (CreateEntry name
        (AList.update (CONF_SENSOR_TYPE K) (PStr sensor_type)
           (AList.update (CONF_ADDRESS K) (PStr (adv_address discovery)) user_input))), st)"
  using assms by (simp add: async_create_entry_from_discovery_def)

lemma entry_data_lookup:
  assumes "k \<noteq> CONF_SENSOR_TYPE K" and "k \<noteq> CONF_ADDRESS K"
  shows "map_of (AList.update (CONF_SENSOR_TYPE K) s (AList.update (CONF_ADDRESS K) a ui)) k =
     map_of ui k"
  using assms by (simp add: update_conv')

lemma entry_data_address:
  assumes "CONF_ADDRESS K \<noteq> CONF_SENSOR_TYPE K"
  shows "map_of (AList.update (CONF_SENSOR_TYPE K) s (AList.update (CONF_ADDRESS K) a ui))
           (CONF_ADDRESS K) = Some a"
    and "map_of (AList.update (CONF_SENSOR_TYPE K) s (AList.update (CONF_ADDRESS K) a ui))
           (CONF_SENSOR_TYPE K) = Some s"
  using assms by (simp_all add: update_conv')

lemma dict2_lookup:
  "k1 \<noteq> k2 \<Longrightarrow> map_of (dict2 k1 v1 k2 v2) k1 = Some v1"
  "map_of (dict2 k1 v1 k2 v2) k2 = Some v2"
  by (simp_all add: dict2_def update_conv')

section \<open>C7: a successful credential exchange\<close>

text \<open>
  C7 (as amended). Let the form keys be distinct, a device with a name and a supported
  model be selected, and the credential exchange of \<open>async_step_lock_auth\<close> return a key
  bundle. If the lock accepts the resolved key, the run ends with the entry created, and
  the entry's data holds the key id and the key of the bundle together with the device's
  address and sensor type.
\<close>

theorem verified_key_bundle_is_persisted:
  assumes keys: "keys_distinct K"
    and sel: "discovered_adv st = Some discovery"
    and name: "name_from_discovery discovery = Inr name"
    and model: "modelName (adv_data discovery) = Some model_name"
    and supported: "map_of (SUPPORTED_MODEL_TYPES K) model_name = Some sensor_type"
    and exchange: "retrieve_lock_key K env (adv_address discovery)
        (map_of ui (CONF_USERNAME K)) (map_of ui (CONF_PASSWORD K)) = Inr key_details"
    and verified: "verify_encryption_key env (adv_device discovery)
        (map_of key_details (CONF_KEY_ID K))
        (map_of key_details (CONF_ENCRYPTION_KEY K)) = Inr True"
  shows "\<exists>entry_data key_id key.
     async_step_lock_auth K env st (Some ui) = (Inr (CreateEntry name entry_data), st) \<and>
     key_details = dict2 (CONF_KEY_ID K) key_id (CONF_ENCRYPTION_KEY K) key \<and>
     map_of entry_data (CONF_KEY_ID K) = Some key_id \<and>
     map_of entry_data (CONF_ENCRYPTION_KEY K) = Some key \<and>
     map_of entry_data (CONF_ADDRESS K) = Some (PStr (adv_address discovery)) \<and>
     map_of entry_data (CONF_SENSOR_TYPE K) = Some (PStr sensor_type)"
proof -
  from retrieve_lock_key_Inr [OF exchange] obtain key_id key
    where kd: "key_details = dict2 (CONF_KEY_ID K) key_id (CONF_ENCRYPTION_KEY K) key"
    by blast
  define entry_data where "entry_data =
    AList.update (CONF_SENSOR_TYPE K) (PStr sensor_type)
      (AList.update (CONF_ADDRESS K) (PStr (adv_address discovery)) key_details)"
  have d: "CONF_KEY_ID K \<noteq> CONF_ENCRYPTION_KEY K"
    "CONF_KEY_ID K \<noteq> CONF_SENSOR_TYPE K" "CONF_KEY_ID K \<noteq> CONF_ADDRESS K"
    "CONF_ENCRYPTION_KEY K \<noteq> CONF_SENSOR_TYPE K" "CONF_ENCRYPTION_KEY K \<noteq> CONF_ADDRESS K"
    "CONF_ADDRESS K \<noteq> CONF_SENSOR_TYPE K"
    using keys by (auto simp: keys_distinct_def)
  have "async_step_lock_key K env st (Some key_details) = (Inr (CreateEntry name entry_data), st)"
    using sel verified create_entry_named [OF sel name model supported, of key_details]
    by (simp add: async_step_lock_key_def Let_def entry_data_def)
  then have r: "async_step_lock_auth K env st (Some ui) = (Inr (CreateEntry name entry_data), st)"
    using sel exchange by (simp add: async_step_lock_auth_def Let_def)
  have k1: "map_of entry_data (CONF_KEY_ID K) = Some key_id"
    unfolding entry_data_def using d by (simp add: entry_data_lookup kd dict2_lookup)
  have k2: "map_of entry_data (CONF_ENCRYPTION_KEY K) = Some key"
    unfolding entry_data_def using d by (simp add: entry_data_lookup kd dict2_lookup)
  have k3: "map_of entry_data (CONF_ADDRESS K) = Some (PStr (adv_address discovery))"
    and k4: "map_of entry_data (CONF_SENSOR_TYPE K) = Some (PStr sensor_type)"
    unfolding entry_data_def using d by (simp_all add: entry_data_address)
  from r kd k1 k2 k3 k4 show ?thesis by blast
qed


lemma example_keys_distinct: "keys_distinct example_config"
  by (simp add: keys_distinct_def example_config_def)

lemma retrieve_accepting:
  "retrieve_lock_key example_config accepting_hass ''AA:BB:CC:DD:EE:03''
     (Some (PStr ''user'')) (Some (PStr ''secret'')) =
   Inr [(''key_id'', PStr ''ff''), (''encryption_key'', PStr ''00112233'')]"
  by (simp add: retrieve_lock_key_def Let_def accepting_hass_def cloud_hass_def quiet_hass_def
        key_response_def subscript_def dict2_def example_keys)

lemma lock_adv_model:
  "modelName (adv_data lock_adv) = Some ''WoLock''"
  "map_of (SUPPORTED_MODEL_TYPES example_config) ''WoLock'' = Some ''lock''"
  by (simp_all add: lock_adv_def example_adv_def example_config_def)

theorem verified_key_bundle_is_persisted_witness:
  "keys_distinct example_config \<and>
   (\<exists>entry_data.
      async_step_lock_auth example_config accepting_hass lock_flow (Some login) =
        (Inr (CreateEntry ''Lock EE03'' entry_data), lock_flow) \<and>
      map_of entry_data ''key_id'' = Some (PStr ''ff'') \<and>
      map_of entry_data ''encryption_key'' = Some (PStr ''00112233'') \<and>
      map_of entry_data ''address'' = Some (PStr ''AA:BB:CC:DD:EE:03'') \<and>
      map_of entry_data ''sensor_type'' = Some (PStr ''lock''))"
proof -
  have r: "retrieve_lock_key example_config accepting_hass (adv_address lock_adv)
      (map_of login (CONF_USERNAME example_config))
      (map_of login (CONF_PASSWORD example_config)) =
      Inr [(''key_id'', PStr ''ff''), (''encryption_key'', PStr ''00112233'')]"
    by (simp add: login_fields lock_adv_address retrieve_accepting)
  have v: "verify_encryption_key accepting_hass (adv_device lock_adv)
      (map_of [(''key_id'', PStr ''ff''), (''encryption_key'', PStr ''00112233'')]
         (CONF_KEY_ID example_config))
      (map_of [(''key_id'', PStr ''ff''), (''encryption_key'', PStr ''00112233'')]
         (CONF_ENCRYPTION_KEY example_config)) = Inr True"
    by (simp add: accepting_hass_def)
  from verified_key_bundle_is_persisted [OF example_keys_distinct lock_flow_adv name_lock_adv
      lock_adv_model r v]
  obtain entry_data key_id key where
    s: "async_step_lock_auth example_config accepting_hass lock_flow (Some login) =
        (Inr (CreateEntry ''Lock EE03'' entry_data), lock_flow)"
    and kd: "[(''key_id'', PStr ''ff''), (''encryption_key'', PStr ''00112233'')] =
        dict2 (CONF_KEY_ID example_config) key_id (CONF_ENCRYPTION_KEY example_config) key"
    and m: "map_of entry_data (CONF_KEY_ID example_config) = Some key_id"
      "map_of entry_data (CONF_ENCRYPTION_KEY example_config) = Some key"
      "map_of entry_data (CONF_ADDRESS example_config) = Some (PStr (adv_address lock_adv))"
      "map_of entry_data (CONF_SENSOR_TYPE example_config) = Some (PStr ''lock'')"
    by blast
  from kd have "key_id = PStr ''ff''" and "key = PStr ''00112233''"
    by (simp_all add: example_keys dict2_keys)
  with s m example_keys_distinct show ?thesis
    by (auto simp: example_keys lock_adv_address)
qed

text \<open>
  The claim as first stated finalizes after every successful exchange. The bundle is
  verified against the lock first: with a cloud that returns a bundle and a lock that
  rejects it, the step renders the form \<open>lock_key\<close> with its errors and creates no entry.
\<close>

theorem resolved_key_rejected_counterexample:
  "retrieve_lock_key example_config cloud_hass (adv_address lock_adv)
     (map_of login (CONF_USERNAME example_config))
     (map_of login (CONF_PASSWORD example_config)) =
     Inr [(''key_id'', PStr ''ff''), (''encryption_key'', PStr ''00112233'')] \<and>
   fst (async_step_lock_auth example_config cloud_hass lock_flow (Some login)) =
     Inr (ShowForm ''lock_key'' [(''key_id'', TStr), (''encryption_key'', TStr)]
        (Some [(''key_id'', ''key_id_invalid''),
               (''encryption_key'', ''encryption_key_invalid'')])
        (Some [(''name'', ''Lock EE03'')]))"
proof -
  have r: "retrieve_lock_key example_config cloud_hass (adv_address lock_adv)
      (map_of login (CONF_USERNAME example_config))
      (map_of login (CONF_PASSWORD example_config)) =
      Inr [(''key_id'', PStr ''ff''), (''encryption_key'', PStr ''00112233'')]"
    by (simp add: login_fields lock_adv_address retrieve_cloud)
  have "async_step_lock_auth example_config cloud_hass lock_flow (Some login) =
     (Inr (ShowForm ''lock_key'' [(''key_id'', TStr), (''encryption_key'', TStr)]
        (Some [(''key_id'', ''key_id_invalid''),
               (''encryption_key'', ''encryption_key_invalid'')])
        (Some [(''name'', ''Lock EE03'')])), lock_flow)"
    using lock_auth_key_rejected [OF lock_flow_adv name_lock_adv r cloud_rejects_key(1)]
    by (simp only: example_keys dict2_keys)
  with r show ?thesis by simp
qed

lemma discover_one_not_eligible:
  "\<not> eligible K env i \<Longrightarrow> discover_one K env (current_ids env) i advs = advs"
  by (auto simp: eligible_def discover_one_def Let_def async_current_ids_def
      split: option.splits)

lemma fold_discover_not_eligible:
  "\<forall>i \<in> set infos. \<not> eligible K env i \<Longrightarrow>
   fold (discover_one K env (current_ids env)) infos advs = advs"
  by (induction infos arbitrary: advs) (simp_all add: discover_one_not_eligible)

section \<open>C8: no eligible candidate\<close>

text \<open>
  C8. When \<open>async_step_user\<close> runs the discovery on a run that has discovered nothing
  yet, and no event of the scan is eligible (unconfigured, parsed, with a model that suits
  the transport), the step raises AbortFlow with reason \<open>no_unconfigured_devices\<close>: the
  run ends there, no form is rendered that could be submitted again, and the state of
  the run is as before.
\<close>

theorem no_eligible_candidate_aborts:
  assumes fresh: "discovered_advs st = []"
    and none: "\<forall>i \<in> set (async_discovered_service_info env True @
                        async_discovered_service_info env False). \<not> eligible K env i"
  shows "async_step_user K env st None = (Inl (AbortFlow ''no_unconfigured_devices''), st)"
proof -
  from none have t: "\<forall>i \<in> set (async_discovered_service_info env True). \<not> eligible K env i"
    and f: "\<forall>i \<in> set (async_discovered_service_info env False). \<not> eligible K env i"
    by auto
  have "async_discover_devices K env st = (Inl (AbortFlow ''no_unconfigured_devices''), st)"
    using fresh
    by (simp add: async_discover_devices_def Let_def async_current_ids_def
          fold_discover_not_eligible [OF t] fold_discover_not_eligible [OF f])
  then show ?thesis
    by (simp add: async_step_user_def)
qed

theorem no_eligible_candidate_aborts_witness:
  "discovered_advs init_flow = [] \<and>
   \<not> eligible example_config lock_scan_hass (lock_info False) \<and>
   async_step_user example_config lock_scan_hass init_flow None =
     (Inl (AbortFlow ''no_unconfigured_devices''), init_flow)"
proof -
  have fresh: "discovered_advs init_flow = []"
    by (simp add: init_flow_def)
  have e: "\<not> eligible example_config lock_scan_hass (lock_info False)"
    by (simp add: eligible_def lock_scan_hass_def quiet_hass_def lock_info_fields parse_lock
          transport_compatible_def in_table_def lock_adv_def example_adv_def
          example_config_def async_current_ids_def)
  have none: "\<forall>i \<in> set (async_discovered_service_info lock_scan_hass True @
      async_discovered_service_info lock_scan_hass False).
      \<not> eligible example_config lock_scan_hass i"
    using e by (simp add: lock_scan_hass_def quiet_hass_def)
  from no_eligible_candidate_aborts [OF fresh none] fresh e
  show ?thesis by simp
qed

lemma set_device_unconfigured:
  "format_unique_id (adv_address d) \<notin> set (current_ids env) \<Longrightarrow>
   async_set_device env st d =
     (Inr (), st\<lparr>discovered_adv := Some d,
                  unique_id := Some (format_unique_id (adv_address d))\<rparr>)"
  by (simp add: async_set_device_def Let_def abort_if_unique_id_configured_def
        async_set_unique_id_def async_current_ids_def)

section \<open>C5 and C6: one candidate, and an encrypted candidate chosen among several\<close>

text \<open>
  C5. When the discovery of \<open>async_step_user\<close> (no input) leaves exactly one candidate,
  unconfigured and with a name, the selection form \<open>user\<close> is not rendered: the candidate
  becomes the selected device and the step renders \<open>lock_chose_method\<close> for a lock,
  \<open>password\<close> for another device that is encrypted, and \<open>confirm\<close> otherwise.
\<close>

theorem single_candidate_skips_selection:
  assumes found: "async_discover_devices K env st = (Inr (), st1)"
    and one: "discovered_advs st1 = [(address, device_adv)]"
    and unconfigured: "format_unique_id (adv_address device_adv) \<notin> set (current_ids env)"
    and name: "name_from_discovery device_adv = Inr name"
    and enc: "isEncrypted (adv_data device_adv) = Some encrypted"
  shows "async_step_user K env st None =
     (let st' = st1\<lparr>discovered_adv := Some device_adv,
                     unique_id := Some (format_unique_id (adv_address device_adv))\<rparr> in
      if modelName (adv_data device_adv) = Some (LOCK K) then
        (Inr (ShowForm ''lock_chose_method''
           [(''method'', TIn [(''login_password'', ''SwitchBot App login and password''),
                              (''encryption_key'', ''Lock encryption key'')])]
           None (Some [(''name'', name)])), st')
      else if encrypted then
        (Inr (ShowForm ''password'' [(CONF_PASSWORD K, TStr)] None (Some [(''name'', name)])),
         st')
      else
        (Inr (ShowForm ''confirm'' [] None (Some [(''name'', name)])),
         st'\<lparr>confirm_only := True\<rparr>))"
  using found one enc
  by (simp add: async_step_user_def set_device_unconfigured [OF unconfigured] Let_def
        async_step_lock_chose_method_def async_step_password_def async_step_confirm_def
        show_form_for_named [OF name])

text \<open>
  C6. Let the form keys be distinct. For a candidate of the discovered map that is chosen
  in the selection form, is unconfigured, encrypted, not a lock, has a name and a model of
  the supported table, \<open>async_step_user\<close> renders the form \<open>password\<close>; and
  \<open>async_step_password\<close>, which reaches no collaborator of the host, creates the entry
  for every submitted password: its data are the password, the candidate's address and
  its sensor type.
\<close>

theorem selected_encrypted_device_takes_any_password:
  assumes keys: "keys_distinct K"
    and chosen: "map_of ui (CONF_ADDRESS K) = Some (PStr address)"
    and candidate: "map_of (discovered_advs st) address = Some device_adv"
    and unconfigured: "format_unique_id (adv_address device_adv) \<notin> set (current_ids env)"
    and model: "modelName (adv_data device_adv) = Some model_name"
    and not_lock: "model_name \<noteq> LOCK K"
    and encrypted: "isEncrypted (adv_data device_adv) = Some True"
    and supported: "map_of (SUPPORTED_MODEL_TYPES K) model_name = Some sensor_type"
    and name: "name_from_discovery device_adv = Inr name"
  shows "(let st' = st\<lparr>discovered_adv := Some device_adv,
                       unique_id := Some (format_unique_id (adv_address device_adv))\<rparr> in
     async_step_user K env st (Some ui) =
       (Inr (ShowForm ''password'' [(CONF_PASSWORD K, TStr)] None (Some [(''name'', name)])),
        st') \<and>
     (\<forall>password.
        async_step_password K st' (Some [(CONF_PASSWORD K, password)]) =
          (Inr (CreateEntry name
             [(CONF_PASSWORD K, password),
              (CONF_ADDRESS K, PStr (adv_address device_adv)),
              (CONF_SENSOR_TYPE K, PStr sensor_type)]), st')))"
proof -
  define st' where "st' = st\<lparr>discovered_adv := Some device_adv,
      unique_id := Some (format_unique_id (adv_address device_adv))\<rparr>"
  have sel: "discovered_adv st' = Some device_adv"
    by (simp add: st'_def)
  have d: "CONF_PASSWORD K \<noteq> CONF_ADDRESS K" "CONF_PASSWORD K \<noteq> CONF_SENSOR_TYPE K"
    "CONF_ADDRESS K \<noteq> CONF_SENSOR_TYPE K"
    using keys by (auto simp: keys_distinct_def)
  have form: "async_step_user K env st (Some ui) =
       (Inr (ShowForm ''password'' [(CONF_PASSWORD K, TStr)] None (Some [(''name'', name)])),
        st')"
    using chosen candidate model not_lock encrypted
    by (simp add: async_step_user_def set_device_unconfigured [OF unconfigured]
          async_step_password_def show_form_for_named [OF name] st'_def)
  have entry: "async_step_password K st' (Some [(CONF_PASSWORD K, password)]) =
          (Inr (CreateEntry name
             [(CONF_PASSWORD K, password),
              (CONF_ADDRESS K, PStr (adv_address device_adv)),
              (CONF_SENSOR_TYPE K, PStr sensor_type)]), st')" for password
    using sel d create_entry_named [OF sel name model supported]
    by (simp add: async_step_password_def)
  from form entry show ?thesis
    by (simp add: st'_def Let_def)
qed


lemma fid_02: "format_unique_id ''AA:BB:CC:DD:EE:02'' = ''aabbccddee02''"
  by code_simp

lemma name_encrypted_bots:
  "name_from_discovery encrypted_bot_adv = Inr ''Bot EE01''"
  "name_from_discovery second_encrypted_bot_adv = Inr ''Bot EE02''"
  by code_simp+

lemma quiet_no_records: "current_ids quiet_hass = []"
  by (simp add: quiet_hass_def)

lemma discover_one_lock:
  "async_discover_devices example_config one_lock_hass init_flow =
     (Inr (), init_flow\<lparr>discovered_advs := [(''AA:BB:CC:DD:EE:03'', lock_adv)]\<rparr>)"
  by (simp add: async_discover_devices_def Let_def async_current_ids_def one_lock_hass_def
        quiet_hass_def discover_one_def lock_info_fields parse_lock init_flow_def
        transport_compatible_def lock_in_connectable)

lemma discover_two_bots:
  "async_discover_devices example_config two_bots_hass init_flow = (Inr (), two_bots_flow)"
  by (simp add: async_discover_devices_def Let_def async_current_ids_def two_bots_hass_def
        quiet_hass_def discover_one_def example_info_def example_parse_def init_flow_def
        transport_compatible_def in_table_def example_adv_def example_config_def
        two_bots_flow_def encrypted_bot_adv_def second_encrypted_bot_adv_def)

theorem single_candidate_skips_selection_witness:
  "async_discover_devices example_config one_lock_hass init_flow =
     (Inr (), init_flow\<lparr>discovered_advs := [(''AA:BB:CC:DD:EE:03'', lock_adv)]\<rparr>) \<and>
   async_step_user example_config one_lock_hass init_flow None =
     (Inr (ShowForm ''lock_chose_method''
        [(''method'', TIn [(''login_password'', ''SwitchBot App login and password''),
                           (''encryption_key'', ''Lock encryption key'')])]
        None (Some [(''name'', ''Lock EE03'')])),
      init_flow\<lparr>discovered_advs := [(''AA:BB:CC:DD:EE:03'', lock_adv)],
                discovered_adv := Some lock_adv, unique_id := Some ''aabbccddee03''\<rparr>)"
proof -
  have one: "discovered_advs (init_flow\<lparr>discovered_advs := [(''AA:BB:CC:DD:EE:03'', lock_adv)]\<rparr>) =
      [(''AA:BB:CC:DD:EE:03'', lock_adv)]"
    by simp
  have u: "format_unique_id (adv_address lock_adv) \<notin> set (current_ids one_lock_hass)"
    by (simp add: one_lock_hass_def quiet_hass_def)
  have e: "isEncrypted (adv_data lock_adv) = Some False"
    by (simp add: lock_adv_def example_adv_def)
  have l: "modelName (adv_data lock_adv) = Some (LOCK example_config)"
    by (simp add: lock_adv_def example_adv_def example_config_def)
  from single_candidate_skips_selection [OF discover_one_lock one u name_lock_adv e]
    l discover_one_lock
  show ?thesis by (simp add: lock_adv_address fid_03)
qed

theorem selected_encrypted_device_takes_any_password_witness:
  "async_step_user example_config two_bots_hass init_flow None =
     (Inr (ShowForm ''user''
        [(''address'', TIn [(''AA:BB:CC:DD:EE:01'', ''Bot EE01''),
                            (''AA:BB:CC:DD:EE:02'', ''Bot EE02'')])]
        (Some []) None), two_bots_flow) \<and>
   async_step_user example_config two_bots_hass two_bots_flow
       (Some [(''address'', PStr ''AA:BB:CC:DD:EE:02'')]) =
     (Inr (ShowForm ''password'' [(''password'', TStr)] None (Some [(''name'', ''Bot EE02'')])),
      two_bots_flow\<lparr>discovered_adv := Some second_encrypted_bot_adv,
                    unique_id := Some ''aabbccddee02''\<rparr>) \<and>
   async_step_password example_config
       (two_bots_flow\<lparr>discovered_adv := Some second_encrypted_bot_adv,
                     unique_id := Some ''aabbccddee02''\<rparr>)
       (Some [(''password'', PStr ''x'')]) =
     (Inr (CreateEntry ''Bot EE02''
        [(''password'', PStr ''x''), (''address'', PStr ''AA:BB:CC:DD:EE:02''),
         (''sensor_type'', PStr ''bot'')]),
      two_bots_flow\<lparr>discovered_adv := Some second_encrypted_bot_adv,
                    unique_id := Some ''aabbccddee02''\<rparr>)"
proof -
  have form: "async_step_user example_config two_bots_hass init_flow None =
     (Inr (ShowForm ''user''
        [(''address'', TIn [(''AA:BB:CC:DD:EE:01'', ''Bot EE01''),
                            (''AA:BB:CC:DD:EE:02'', ''Bot EE02'')])]
        (Some []) None), two_bots_flow)"
    by (simp add: async_step_user_def discover_two_bots two_bots_flow_def
          name_encrypted_bots example_keys)
  have chosen: "map_of [(''address'', PStr ''AA:BB:CC:DD:EE:02'')] (CONF_ADDRESS example_config) =
      Some (PStr ''AA:BB:CC:DD:EE:02'')"
    by (simp add: example_keys)
  have candidate: "map_of (discovered_advs two_bots_flow) ''AA:BB:CC:DD:EE:02'' =
      Some second_encrypted_bot_adv"
    by (simp add: two_bots_flow_def)
  have a: "adv_address second_encrypted_bot_adv = ''AA:BB:CC:DD:EE:02''"
    by (simp add: second_encrypted_bot_adv_def example_adv_def)
  have u: "format_unique_id (adv_address second_encrypted_bot_adv) \<notin>
      set (current_ids two_bots_hass)"
    by (simp add: two_bots_hass_def quiet_hass_def)
  have m: "modelName (adv_data second_encrypted_bot_adv) = Some ''WoHand''"
    and e: "isEncrypted (adv_data second_encrypted_bot_adv) = Some True"
    by (simp_all add: second_encrypted_bot_adv_def example_adv_def)
  have n: "''WoHand'' \<noteq> LOCK example_config"
    and s: "map_of (SUPPORTED_MODEL_TYPES example_config) ''WoHand'' = Some ''bot''"
    by (simp_all add: example_config_def)
  from selected_encrypted_device_takes_any_password [OF example_keys_distinct chosen candidate
      u m n e s name_encrypted_bots(2)] form
  show ?thesis by (simp add: Let_def a fid_02 example_keys)
qed

section \<open>C9: adding a sensor in the options flow\<close>

text \<open>
  C9. In the sub-flow that adds a sensor: a search that returns nothing renders the state
  \<open>add_sensor\<close> again with an error; after a search that returns one sensor the same
  input leads to the choice, and choosing the sensor creates the entry with the sensor
  appended to the list of the options; choosing a sensor that the options hold already,
  as on submitting the same sensor again, aborts with \<open>already_configured\<close>.
\<close>

theorem options_add_sensor:
  "(async_get_nearby_sensors coordinates = SearchReturns [] \<longrightarrow>
      async_step_add_sensor async_get_nearby_sensors (Some coordinates) =
        OptionsForm ''add_sensor'' [(''base'', ''no_sensors_near_coordinates'')]) \<and>
   (async_get_nearby_sensors coordinates = SearchReturns [(sensor_index, name)] \<and>
    sensor_index \<notin> set (sensor_indices options) \<longrightarrow>
      async_step_add_sensor async_get_nearby_sensors (Some coordinates) =
        OptionsForm ''choose_sensor'' [] \<and>
      async_step_choose_sensor options sensor_index =
        OptionsCreateEntry
          (options\<lparr>sensor_indices := sensor_indices options @ [sensor_index],
                    last_update_sensor_add := True\<rparr>) \<and>
      async_step_choose_sensor
          (options\<lparr>sensor_indices := sensor_indices options @ [sensor_index],
                    last_update_sensor_add := True\<rparr>) sensor_index =
        OptionsAbort ''already_configured'') \<and>
   (sensor_index \<in> set (sensor_indices options) \<longrightarrow>
      async_step_choose_sensor options sensor_index = OptionsAbort ''already_configured'')"
proof (intro conjI impI)
  assume "async_get_nearby_sensors coordinates = SearchReturns []"
  then show "async_step_add_sensor async_get_nearby_sensors (Some coordinates) =
      OptionsForm ''add_sensor'' [(''base'', ''no_sensors_near_coordinates'')]"
    by (simp add: async_step_add_sensor_def)
next
  assume "async_get_nearby_sensors coordinates = SearchReturns [(sensor_index, name)] \<and>
    sensor_index \<notin> set (sensor_indices options)"
  then show "async_step_add_sensor async_get_nearby_sensors (Some coordinates) =
      OptionsForm ''choose_sensor'' []"
    by (simp add: async_step_add_sensor_def)
next
  assume "async_get_nearby_sensors coordinates = SearchReturns [(sensor_index, name)] \<and>
    sensor_index \<notin> set (sensor_indices options)"
  then show "async_step_choose_sensor options sensor_index =
      OptionsCreateEntry
        (options\<lparr>sensor_indices := sensor_indices options @ [sensor_index],
                  last_update_sensor_add := True\<rparr>)"
    by (simp add: async_step_choose_sensor_def)
next
  show "async_step_choose_sensor
      (options\<lparr>sensor_indices := sensor_indices options @ [sensor_index],
                last_update_sensor_add := True\<rparr>) sensor_index =
      OptionsAbort ''already_configured''"
    by (simp add: async_step_choose_sensor_def)
next
  assume "sensor_index \<in> set (sensor_indices options)"
  then show "async_step_choose_sensor options sensor_index = OptionsAbort ''already_configured''"
    by (simp add: async_step_choose_sensor_def)
qed

theorem options_add_sensor_witness:
  "async_step_add_sensor (\<lambda>c :: int \<times> int \<times> int. SearchReturns [])
       (Some (515285582, - 2416796, 5)) =
     OptionsForm ''add_sensor'' [(''base'', ''no_sensors_near_coordinates'')] \<and>
   async_step_add_sensor (\<lambda>c :: int \<times> int \<times> int. SearchReturns [(567890, ''Test sensor'')])
       (Some (515285582, - 2416796, 5)) =
     OptionsForm ''choose_sensor'' [] \<and>
   async_step_choose_sensor \<lparr>sensor_indices = [123456], last_update_sensor_add = False\<rparr> 567890 =
     OptionsCreateEntry \<lparr>sensor_indices = [123456, 567890], last_update_sensor_add = True\<rparr> \<and>
   async_step_choose_sensor \<lparr>sensor_indices = [123456, 567890], last_update_sensor_add = True\<rparr>
       567890 = OptionsAbort ''already_configured'' \<and>
   async_step_choose_sensor \<lparr>sensor_indices = [123456], last_update_sensor_add = False\<rparr> 123456 =
     OptionsAbort ''already_configured''"
  using
    options_add_sensor [where async_get_nearby_sensors = "\<lambda>c :: int \<times> int \<times> int. SearchReturns []"
      and coordinates = "(515285582, - 2416796, 5)" and sensor_index = 123456
      and options = "\<lparr>sensor_indices = [123456], last_update_sensor_add = False\<rparr>"]
    options_add_sensor [where async_get_nearby_sensors =
        "\<lambda>c :: int \<times> int \<times> int. SearchReturns [(567890, ''Test sensor'')]"
      and coordinates = "(515285582, - 2416796, 5)" and sensor_index = 567890
      and name = "''Test sensor''"
      and options = "\<lparr>sensor_indices = [123456], last_update_sensor_add = False\<rparr>"]
  by simp

end
